theory Spec2Isabelle
  imports Complex_Main
begin

section \<open>Python values and strings\<close>

text \<open>
  The pipeline passes around what \<^verbatim>\<open>json.loads\<close> returns and what MongoDB stores:
  \<^verbatim>\<open>None\<close>, booleans, numbers, strings, lists and dicts. A dict is an association list
  in insertion order. Text is a \<^typ>\<open>string\<close>; a character stands for one code point.
\<close>

datatype pyval =
    PNone
  | PBool bool
  | PInt int
  | PFloat rat
  | PStr string
  | PList "pyval list"
  | PDict "(pyval \<times> pyval) list"

type_synonym pydict = "(pyval \<times> pyval) list"

text \<open>
  The exceptions the code distinguishes. The first three are the classes of the
  \<^verbatim>\<open>openai\<close> package named in the handlers of \<^verbatim>\<open>structure_text\<close>; \<open>APIError\<close> here
  stands for an API error that is neither of the two more specific ones, which the handler
  order makes the only way to reach that clause. \<open>OtherException\<close> is any other subclass
  of \<^verbatim>\<open>Exception\<close> (TypeError, ValueError, KeyError, ...). Exceptions outside
  \<^verbatim>\<open>Exception\<close>, such as a keyboard interrupt, are not part of the model.
\<close>

datatype exc = AuthenticationError | RateLimitError | APIError | OtherException

text \<open>Truth value of a Python object, as \<^verbatim>\<open>if x:\<close> and \<^verbatim>\<open>not x\<close> test it.\<close>

fun truthy :: "pyval \<Rightarrow> bool" where
  "truthy PNone = False"
| "truthy (PBool b) = b"
| "truthy (PInt i) = (i \<noteq> 0)"
| "truthy (PFloat r) = (r \<noteq> 0)"
| "truthy (PStr s) = (s \<noteq> [])"
| "truthy (PList xs) = (xs \<noteq> [])"
| "truthy (PDict kvs) = (kvs \<noteq> [])"

text \<open>
  \<^verbatim>\<open>str.isspace\<close> on the code points below 256: tab to carriage return, the four
  separators 28 to 31, the space, NEL and the no-break space.
\<close>

definition py_isspace :: "char \<Rightarrow> bool" where
  "py_isspace c = ((of_char c :: nat) \<in> set [9, 10, 11, 12, 13, 28, 29, 30, 31, 32, 133, 160])"

definition py_strip :: "string \<Rightarrow> string" where
  "py_strip s = rev (dropWhile py_isspace (rev (dropWhile py_isspace s)))"

section \<open>Dicts, membership and slices\<close>

text \<open>
  Dict keys are compared the way Python compares hashable objects: numbers and booleans
  by value (\<^verbatim>\<open>True == 1 == 1.0\<close>), everything else structurally. Only hashable keys
  (no list, no dict) ever reach a dict.
\<close>

fun key_num :: "pyval \<Rightarrow> rat option" where
  "key_num (PBool b) = Some (if b then 1 else 0)"
| "key_num (PInt i) = Some (of_int i)"
| "key_num (PFloat r) = Some r"
| "key_num v = None"

definition py_eq :: "pyval \<Rightarrow> pyval \<Rightarrow> bool" where
  "py_eq a b = (case key_num a of Some x \<Rightarrow> key_num b = Some x | None \<Rightarrow> a = b)"

fun hashable :: "pyval \<Rightarrow> bool" where
  "hashable (PList xs) = False"
| "hashable (PDict kvs) = False"
| "hashable v = True"

fun dict_get :: "pydict \<Rightarrow> pyval \<Rightarrow> pyval option" where
  "dict_get [] k = None"
| "dict_get ((k', v) # d) k = (if py_eq k' k then Some v else dict_get d k)"

definition dict_has :: "pydict \<Rightarrow> pyval \<Rightarrow> bool" where
  "dict_has d k = (case dict_get d k of None \<Rightarrow> False | Some v \<Rightarrow> True)"

text \<open>\<^verbatim>\<open>d[k] = v\<close>: an existing key keeps its place, a new key goes to the end.\<close>

fun dict_set :: "pydict \<Rightarrow> pyval \<Rightarrow> pyval \<Rightarrow> pydict" where
  "dict_set [] k v = [(k, v)]"
| "dict_set ((k', v') # d) k v =
     (if py_eq k' k then (k', v) # d else (k', v') # dict_set d k v)"

text \<open>\<^verbatim>\<open>d.get(key, default)\<close> with a string key.\<close>

definition py_get :: "pydict \<Rightarrow> string \<Rightarrow> pyval \<Rightarrow> pyval" where
  "py_get d key dflt = (case dict_get d (PStr key) of None \<Rightarrow> dflt | Some v \<Rightarrow> v)"

text \<open>\<^verbatim>\<open>d.update(e)\<close> for a dict \<open>e\<close>.\<close>

definition dict_update :: "pydict \<Rightarrow> pydict \<Rightarrow> pydict" where
  "dict_update d e = fold (\<lambda>kv acc. dict_set acc (fst kv) (snd kv)) e d"

text \<open>\<^verbatim>\<open>x[key] = v\<close> with a string key: only a dict accepts it.\<close>

fun py_setitem :: "pyval \<Rightarrow> string \<Rightarrow> pyval \<Rightarrow> exc + pydict" where
  "py_setitem (PDict d) key v = Inr (dict_set d (PStr key) v)"
| "py_setitem x key v = Inl OtherException"

fun substring :: "string \<Rightarrow> string \<Rightarrow> bool" where
  "substring key [] = (key = [])"
| "substring key (c # cs) = (take (length key) (c # cs) = key \<or> substring key cs)"

text \<open>
  \<^verbatim>\<open>key in x\<close> for a string key: key lookup in a dict, element search in a list,
  substring search in a string, TypeError on anything else.
\<close>

fun py_contains :: "pyval \<Rightarrow> string \<Rightarrow> exc + bool" where
  "py_contains (PDict d) key = Inr (dict_has d (PStr key))"
| "py_contains (PList xs) key = Inr (PStr key \<in> set xs)"
| "py_contains (PStr s) key = Inr (substring key s)"
| "py_contains x key = Inl OtherException"

text \<open>\<^verbatim>\<open>acc.extend(x)\<close>: the elements of a list, the characters of a string, the keys of a dict.\<close>

fun py_extend :: "pyval list \<Rightarrow> pyval \<Rightarrow> exc + pyval list" where
  "py_extend acc (PList xs) = Inr (acc @ xs)"
| "py_extend acc (PStr s) = Inr (acc @ map (\<lambda>c. PStr [c]) s)"
| "py_extend acc (PDict d) = Inr (acc @ map fst d)"
| "py_extend acc v = Inl OtherException"

text \<open>\<^verbatim>\<open>x[:n]\<close> is defined on strings and lists; \<^verbatim>\<open>len(x)\<close> on strings, lists and dicts.\<close>

fun sliceable :: "pyval \<Rightarrow> bool" where
  "sliceable (PStr s) = True"
| "sliceable (PList xs) = True"
| "sliceable v = False"

fun has_len :: "pyval \<Rightarrow> bool" where
  "has_len (PStr s) = True"
| "has_len (PList xs) = True"
| "has_len (PDict d) = True"
| "has_len v = False"

fun is_str :: "pyval \<Rightarrow> bool" where
  "is_str (PStr s) = True"
| "is_str v = False"

fun is_list :: "pyval \<Rightarrow> bool" where
  "is_list (PList xs) = True"
| "is_list v = False"

fun is_dict :: "pyval \<Rightarrow> bool" where
  "is_dict (PDict d) = True"
| "is_dict v = False"

text \<open>\<^verbatim>\<open>', '.join(x[:5])\<close>: \<open>x\<close> must be sliceable and the five first items strings.\<close>

fun joinable :: "pyval \<Rightarrow> bool" where
  "joinable (PStr s) = True"
| "joinable (PList xs) = list_all is_str (take 5 xs)"
| "joinable v = False"

section \<open>Strings\<close>

definition nl :: char where
  "nl = CHR 0x0A"

text \<open>\<^verbatim>\<open>s.replace(old, new)\<close>: the occurrences of \<open>old\<close>, left to right, not overlapping.\<close>

fun py_replace :: "string \<Rightarrow> string \<Rightarrow> string \<Rightarrow> string" where
  "py_replace [] new s = new @ concat (map (\<lambda>c. c # new) s)"
| "py_replace (a # old) new [] = []"
| "py_replace (a # old) new (c # cs) =
     (if take (Suc (length old)) (c # cs) = a # old
      then new @ py_replace (a # old) new (drop (length old) cs)
      else c # py_replace (a # old) new cs)"

fun py_join :: "string \<Rightarrow> string list \<Rightarrow> string" where
  "py_join sep [] = []"
| "py_join sep [x] = x"
| "py_join sep (x # y # ys) = x @ sep @ py_join sep (y # ys)"

definition digit_char :: "nat \<Rightarrow> char" where
  "digit_char d = ''0123456789'' ! d"

fun str_of_nat :: "nat \<Rightarrow> string" where
  "str_of_nat n = (if n < 10 then [digit_char n] else str_of_nat (n div 10) @ [digit_char (n mod 10)])"

declare str_of_nat.simps [simp del]

text \<open>\<^verbatim>\<open>s[-k:]\<close> for \<open>k \<ge> 0\<close>: the last \<open>k\<close> characters, but the whole string when \<open>k = 0\<close>,
  since \<^verbatim>\<open>-0\<close> is \<^verbatim>\<open>0\<close>.\<close>

definition slice_last :: "'a list \<Rightarrow> nat \<Rightarrow> 'a list" where
  "slice_last s k = (if k = 0 then s else drop (length s - k) s)"

section \<open>Multiplying an int by a float constant\<close>

text \<open>
  \<^verbatim>\<open>int(max_chars * 0.7)\<close> is computed in IEEE double arithmetic: the int is converted
  to the nearest double, the product is rounded to the nearest double (ties to even), and
  \<^verbatim>\<open>int\<close> truncates. A double constant is \<open>m / 2 ^ e\<close>; the value of a non-negative
  double is kept here as an exact fraction with a power of two below. A budget is a
  natural number; the exponent range is not limited: the products are formed only for a
  budget smaller than the length of a string, far inside the range of a double.
\<close>

fun bitlen :: "nat \<Rightarrow> nat" where
  "bitlen n = (if n = 0 then 0 else Suc (bitlen (n div 2)))"

declare bitlen.simps [simp del]

definition round53 :: "nat \<Rightarrow> nat" where
  "round53 x =
     (let b = bitlen x in
      if b \<le> 53 then x
      else
        let s = b - 53; q = x div 2 ^ s; r = x mod 2 ^ s; h = 2 ^ (s - 1)
        in (if h < r \<or> (r = h \<and> odd q) then q + 1 else q) * 2 ^ s)"

definition int_times_float :: "nat \<Rightarrow> nat \<Rightarrow> nat \<Rightarrow> nat" where
  "int_times_float n m e = round53 (round53 n * m) div 2 ^ e"

text \<open>The doubles nearest to 0.7 and 0.3.\<close>

definition times_0_7 :: "nat \<Rightarrow> nat" where
  "times_0_7 n = int_times_float n 3152519739159347 52"

definition times_0_3 :: "nat \<Rightarrow> nat" where
  "times_0_3 n = int_times_float n 5404319552844595 54"


section \<open>pdf_processor.py: the OCR gate\<close>

text \<open>
  \<^verbatim>\<open>fitz.open\<close> either raises or yields the pages; \<^verbatim>\<open>doc[page_num].get_text()\<close> either
  raises or yields the page's text.
\<close>

type_synonym pdf_page = "exc + string"
type_synonym pdf = "exc + pdf_page list"

text \<open>The \<^verbatim>\<open>for page_num in range(sample_size)\<close> loop of \<^verbatim>\<open>_needs_ocr\<close>.\<close>

fun sample_pages :: "pdf_page list \<Rightarrow> exc + bool" where
  "sample_pages [] = Inr False"
| "sample_pages (p # ps) =
     (case p of
        Inl e \<Rightarrow> Inl e
      | Inr text \<Rightarrow> if length (py_strip text) < 50 then Inr True else sample_pages ps)"

definition needs_ocr_body :: "pdf \<Rightarrow> exc + bool" where
  "needs_ocr_body f =
     (case f of
        Inl e \<Rightarrow> Inl e
      | Inr doc \<Rightarrow> sample_pages (take (min 3 (length doc)) doc))"

text \<open>\<^verbatim>\<open>_needs_ocr\<close>: the body inside \<^verbatim>\<open>try\<close>, any exception answered with \<^verbatim>\<open>True\<close>.\<close>

definition needs_ocr :: "pdf \<Rightarrow> bool" where
  "needs_ocr f = (case needs_ocr_body f of Inl e \<Rightarrow> True | Inr b \<Rightarrow> b)"

definition is_text_scannable :: "int \<Rightarrow> int \<Rightarrow> bool" where
  "is_text_scannable text_length threshold = (text_length < threshold)"

text \<open>The call with the default \<^verbatim>\<open>threshold=50\<close>.\<close>

definition is_text_scannable_default :: "int \<Rightarrow> bool" where
  "is_text_scannable_default text_length = is_text_scannable text_length 50"

text \<open>What makes the loop answer \<^verbatim>\<open>True\<close> at a page: the read fails or the stripped text is short.\<close>

definition page_triggers :: "pdf_page \<Rightarrow> bool" where
  "page_triggers p = (case p of Inl e \<Rightarrow> True | Inr text \<Rightarrow> length (py_strip text) < 50)"

section \<open>database.py: pages and documents\<close>

text \<open>
  A page record of the \<^verbatim>\<open>pages\<close> collection and a record of the \<^verbatim>\<open>documents\<close>
  collection. \<^verbatim>\<open>update_page_data\<close> stores whatever values it is handed, so the three
  fields it writes hold arbitrary Python values.
\<close>

record page =
  doc_id :: string
  page_num :: int
  raw_text :: string
  status :: string
  page_summary :: pyval
  page_keywords :: pyval
  structured_data :: pyval

record document =
  document_id :: string
  filename :: string
  document_status :: string
  document_summary :: pyval
  document_keywords :: "pyval list"

text \<open>
  The manager: a collection is \<open>None\<close> when the connection was never made. The three
  last fields say which driver calls raise: every read, the write of one page, the write
  of one document. The methods catch these exceptions.
\<close>

record db =
  pages_collection :: "page list option"
  documents_collection :: "document list option"
  read_error :: bool
  write_error :: "string \<Rightarrow> int \<Rightarrow> bool"
  document_write_error :: "string \<Rightarrow> bool"

text \<open>\<^verbatim>\<open>find(query).sort("page_num", 1)\<close>\<close>

definition find_pages :: "page list \<Rightarrow> string \<Rightarrow> page list" where
  "find_pages ps did = sort_key page_num (filter (\<lambda>p. doc_id p = did) ps)"

definition get_raw_text :: "db \<Rightarrow> string \<Rightarrow> page list" where
  "get_raw_text d did =
     (case pages_collection d of
        None \<Rightarrow> []
      | Some ps \<Rightarrow> if read_error d then [] else find_pages ps did)"

text \<open>
  \<^verbatim>\<open>update_one(filter, {"$set": ...})\<close>: the first record that matches is changed. A
  matched record counts as modified, since \<^verbatim>\<open>updated_at\<close> is written with every update.
\<close>

fun update_one :: "('a \<Rightarrow> bool) \<Rightarrow> ('a \<Rightarrow> 'a) \<Rightarrow> 'a list \<Rightarrow> 'a list option" where
  "update_one P f [] = None"
| "update_one P f (x # xs) =
     (if P x then Some (f x # xs)
      else (case update_one P f xs of None \<Rightarrow> None | Some ys \<Rightarrow> Some (x # ys)))"

text \<open>The \<^verbatim>\<open>update_fields\<close> of \<^verbatim>\<open>update_page_data\<close>: an argument that is \<^verbatim>\<open>None\<close> is left out.\<close>

definition update_fields :: "pyval \<Rightarrow> pyval \<Rightarrow> pyval \<Rightarrow> page \<Rightarrow> page" where
  "update_fields sd ps kw p =
     p\<lparr>status := ''structured'',
       structured_data := (if sd = PNone then structured_data p else sd),
       page_summary := (if ps = PNone then page_summary p else ps),
       page_keywords := (if kw = PNone then page_keywords p else kw)\<rparr>"

definition update_page_data :: "db \<Rightarrow> string \<Rightarrow> int \<Rightarrow> pyval \<Rightarrow> pyval \<Rightarrow> pyval \<Rightarrow> bool \<times> db" where
  "update_page_data d did pn sd ps kw =
     (case pages_collection d of
        None \<Rightarrow> (False, d)
      | Some pgs \<Rightarrow>
          if write_error d did pn then (False, d)
          else
            (case update_one (\<lambda>p. doc_id p = did \<and> page_num p = pn) (update_fields sd ps kw) pgs of
               None \<Rightarrow> (False, d)
             | Some pgs' \<Rightarrow> (True, d\<lparr>pages_collection := Some pgs'\<rparr>)))"

text \<open>\<^verbatim>\<open>get_document_details\<close>: the document and its pages in ascending page order.\<close>

definition get_document_details :: "db \<Rightarrow> string \<Rightarrow> (document \<times> page list) option" where
  "get_document_details d did =
     (case documents_collection d of
        None \<Rightarrow> None
      | Some docs \<Rightarrow>
          (case pages_collection d of
             None \<Rightarrow> None
           | Some ps \<Rightarrow>
               if read_error d then None
               else
                 (case find (\<lambda>x. document_id x = did) docs of
                    None \<Rightarrow> None
                  | Some doc \<Rightarrow> Some (doc, find_pages ps did))))"

record unified_doc =
  u_doc_id :: string
  u_filename :: string
  total_pages :: nat
  all_sections :: "pyval list"
  all_measurements :: "pyval list"
  all_key_fields :: pydict
  all_tables :: "pyval list"
  pages :: "page list"
  u_document_summary :: pyval
  u_document_keywords :: "pyval list"

text \<open>\<^verbatim>\<open>if isinstance(x, list): acc.extend(x)\<close>: what a field adds to an aggregate list.\<close>

fun list_items :: "pyval \<Rightarrow> pyval list" where
  "list_items (PList xs) = xs"
| "list_items v = []"

text \<open>\<^verbatim>\<open>if isinstance(x, dict): acc.update(x)\<close>\<close>

fun merge_key_fields :: "pydict \<Rightarrow> pyval \<Rightarrow> pydict" where
  "merge_key_fields acc (PDict kf) = dict_update acc kf"
| "merge_key_fields acc v = acc"

text \<open>The body of the loop over the pages in \<^verbatim>\<open>create_document_structure\<close>.\<close>

definition merge_page :: "unified_doc \<Rightarrow> page \<Rightarrow> unified_doc" where
  "merge_page u p =
     (case structured_data p of
        PDict sd \<Rightarrow>
          if sd = [] then u
          else
            u\<lparr>all_sections := all_sections u @ list_items (py_get sd ''sections'' (PList [])),
              all_measurements := all_measurements u @ list_items (py_get sd ''measurements'' (PList [])),
              all_key_fields := merge_key_fields (all_key_fields u) (py_get sd ''key_fields'' (PDict [])),
              all_tables := all_tables u @ list_items (py_get sd ''tables'' (PList []))\<rparr>
      | _ \<Rightarrow> u)"

definition create_document_structure :: "db \<Rightarrow> string \<Rightarrow> unified_doc option" where
  "create_document_structure d did =
     (case get_document_details d did of
        None \<Rightarrow> None
      | Some dp \<Rightarrow>
          Some (fold (\<lambda>p u. merge_page u p) (snd dp)
            \<lparr>u_doc_id = did,
             u_filename = filename (fst dp),
             total_pages = length (snd dp),
             all_sections = [],
             all_measurements = [],
             all_key_fields = [],
             all_tables = [],
             pages = snd dp,
             u_document_summary = document_summary (fst dp),
             u_document_keywords = document_keywords (fst dp)\<rparr>))"

section \<open>ai_processor.py: structuring one page\<close>

text \<open>
  The processor holds the key and the client, which is absent when no key was found or
  the client could not be built.
\<close>

record processor =
  api_key :: "string option"
  client :: bool

text \<open>\<^verbatim>\<open>not self.api_key or not self.client\<close>\<close>

definition unconfigured :: "processor \<Rightarrow> bool" where
  "unconfigured pr = ((case api_key pr of None \<Rightarrow> True | Some k \<Rightarrow> k = []) \<or> \<not> client pr)"

text \<open>
  The outside world. A request to the chat endpoint carries one of the two fixed system
  prompts and the user message; the answer may depend on everything asked before. The
  call raises, or returns a message whose content is a string or \<^verbatim>\<open>None\<close>.
  \<^verbatim>\<open>json.loads\<close> yields a value or raises \<^verbatim>\<open>JSONDecodeError\<close> (\<open>None\<close>).
  \<open>py_repr\<close> is the text Python's formatting gives a value that is not a string.
\<close>

datatype prompt = StructurePrompt | SummaryPrompt

datatype request = Request prompt string

datatype call_outcome = Raises exc | Content "string option"

record env =
  chat :: "request list \<Rightarrow> request \<Rightarrow> call_outcome"
  loads :: "string \<Rightarrow> pyval option"
  py_repr :: "pyval \<Rightarrow> string"

definition get_default_structure :: pydict where
  "get_default_structure =
     [(PStr ''summary'', PStr []),
      (PStr ''keywords'', PList []),
      (PStr ''sections'', PList []),
      (PStr ''measurements'', PList []),
      (PStr ''key_fields'', PDict []),
      (PStr ''tables'', PList []),
      (PStr ''processing_status'', PStr ''failed'')]"

definition required_keys :: "string list" where
  "required_keys = [''summary'', ''keywords'', ''sections'', ''measurements'', ''key_fields'', ''tables'']"

text \<open>\<^verbatim>\<open>all(key in data for key in keys)\<close>: stops at the first key that is missing.\<close>

fun all_in :: "pyval \<Rightarrow> string list \<Rightarrow> exc + bool" where
  "all_in data [] = Inr True"
| "all_in data (k # ks) =
     (case py_contains data k of
        Inl e \<Rightarrow> Inl e
      | Inr b \<Rightarrow> if b then all_in data ks else Inr False)"

definition validate_structure :: "pyval \<Rightarrow> exc + bool" where
  "validate_structure data = all_in data required_keys"

text \<open>\<^verbatim>\<open>default = self._get_default_structure(); default["processing_status"] = tag\<close>\<close>

definition default_with :: "string \<Rightarrow> pydict" where
  "default_with tag = dict_set get_default_structure (PStr ''processing_status'') (PStr tag)"

definition truncation_marker :: string where
  "truncation_marker = [nl, nl] @ ''[...middle content truncated...]'' @ [nl, nl]"

text \<open>The text that is sent: \<^verbatim>\<open>text_to_process\<close>.\<close>

definition text_to_process :: "string \<Rightarrow> nat \<Rightarrow> string" where
  "text_to_process raw max_chars =
     (if max_chars < length raw
      then take (times_0_7 max_chars) raw @ truncation_marker @ slice_last raw (times_0_3 max_chars)
      else raw)"

definition structure_request :: "string \<Rightarrow> request" where
  "structure_request t = Request StructurePrompt (''Text to structure:'' @ [nl, nl] @ t)"

text \<open>
  The branch for a reply that lacks a required key. The warning that lists
  \<^verbatim>\<open>data.keys()\<close> raises on anything but a dict; then comes \<^verbatim>\<open>default.update(data)\<close>
  and the tag.
\<close>

fun merge_partial :: "pyval \<Rightarrow> exc + pydict" where
  "merge_partial (PDict e) =
     Inr (dict_set (dict_update get_default_structure e)
            (PStr ''processing_status'') (PStr ''partial_success''))"
| "merge_partial v = Inl OtherException"

text \<open>What follows the call inside \<^verbatim>\<open>try\<close>, given the content of the reply.\<close>

definition parse_reply :: "env \<Rightarrow> string \<Rightarrow> exc + pydict" where
  "parse_reply ev content =
     (case loads ev (py_strip (py_replace ''```'' [] (py_replace ''```json'' [] content))) of
        None \<Rightarrow> Inr (default_with ''json_error'')
      | Some data \<Rightarrow>
          (case validate_structure data of
             Inl e \<Rightarrow> Inl e
           | Inr ok \<Rightarrow>
               if ok then py_setitem data ''processing_status'' (PStr ''success'')
               else merge_partial data))"

text \<open>The \<^verbatim>\<open>try\<close> block of \<^verbatim>\<open>structure_text\<close>; \<open>Inl\<close> is an exception that leaves it.\<close>

definition structure_text_try :: "env \<Rightarrow> request list \<Rightarrow> string \<Rightarrow> exc + pydict" where
  "structure_text_try ev hist t =
     (case chat ev hist (structure_request t) of
        Raises e \<Rightarrow> Inl e
      | Content None \<Rightarrow> Inl OtherException
      | Content (Some content) \<Rightarrow> parse_reply ev content)"

text \<open>The four \<^verbatim>\<open>except\<close> clauses, in their order.\<close>

fun on_exception :: "exc \<Rightarrow> pydict" where
  "on_exception AuthenticationError = default_with ''auth_error''"
| "on_exception RateLimitError = default_with ''rate_limit_error''"
| "on_exception APIError = default_with ''api_error''"
| "on_exception OtherException = default_with ''unknown_error''"

text \<open>
  \<^verbatim>\<open>structure_text\<close>: the result, \<open>Inl\<close> if an exception reached the caller, and the
  requests made so far.
\<close>

definition structure_text ::
  "env \<Rightarrow> processor \<Rightarrow> request list \<Rightarrow> string \<Rightarrow> nat \<Rightarrow> (exc + pydict) \<times> request list" where
  "structure_text ev pr hist raw max_chars =
     (if unconfigured pr then (Inr (default_with ''no_api_key''), hist)
      else if raw = [] \<or> py_strip raw = [] then (Inr (default_with ''empty_text''), hist)
      else
        let t = text_to_process raw max_chars
        in (case structure_text_try ev hist t of
              Inl e \<Rightarrow> (Inr (on_exception e), hist @ [structure_request t])
            | Inr d \<Rightarrow> (Inr d, hist @ [structure_request t])))"

section \<open>ai_processor.py: the document summary\<close>

definition omitted_marker :: string where
  "omitted_marker = [nl, nl] @ ''[...intermediate pages omitted...]'' @ [nl, nl]"

text \<open>A value inside an f-string: a string as it is, anything else in its printed form.\<close>

definition py_format :: "env \<Rightarrow> pyval \<Rightarrow> string" where
  "py_format ev v = (case v of PStr s \<Rightarrow> s | _ \<Rightarrow> py_repr ev v)"

text \<open>\<^verbatim>\<open>[f"Page {i+1}: {summary}" for i, summary in enumerate(page_summaries)]\<close>, from index \<open>i\<close> on.\<close>

fun page_lines :: "env \<Rightarrow> nat \<Rightarrow> pyval list \<Rightarrow> string list" where
  "page_lines ev i [] = []"
| "page_lines ev i (s # ss) =
     (''Page '' @ str_of_nat (i + 1) @ '': '' @ py_format ev s) # page_lines ev (i + 1) ss"

definition summary_context :: "env \<Rightarrow> pyval list \<Rightarrow> string" where
  "summary_context ev summaries =
     (let c = py_join [nl, nl] (page_lines ev 0 summaries)
      in if 12000 < length c then take 6000 c @ omitted_marker @ slice_last c 6000 else c)"

definition summary_request :: "env \<Rightarrow> pyval list \<Rightarrow> request" where
  "summary_request ev summaries =
     Request SummaryPrompt
       (''Here are the summaries of the document pages:'' @ [nl, nl] @ summary_context ev summaries)"

text \<open>
  The \<^verbatim>\<open>except\<close> branch:
  \<^verbatim>\<open>f"Document with {len(page_summaries)} pages. " + page_summaries[0]\<close>. Adding a value
  that is not a string to a string raises.
\<close>

definition fallback_summary :: "pyval list \<Rightarrow> exc + pyval" where
  "fallback_summary summaries =
     (case summaries of
        [] \<Rightarrow> Inl OtherException
      | s # ss \<Rightarrow>
          (case s of
             PStr t \<Rightarrow> Inr (PStr (''Document with '' @ str_of_nat (length summaries) @ '' pages. '' @ t))
           | _ \<Rightarrow> Inl OtherException))"

text \<open>
  \<^verbatim>\<open>generate_document_summary\<close>. Without a client the attribute access inside
  \<^verbatim>\<open>try\<close> raises before any request is made.
\<close>

definition generate_document_summary ::
  "env \<Rightarrow> processor \<Rightarrow> request list \<Rightarrow> pyval list \<Rightarrow> (exc + pyval) \<times> request list" where
  "generate_document_summary ev pr hist summaries =
     (case summaries of
        [] \<Rightarrow> (Inr (PStr []), hist)
      | s # ss \<Rightarrow>
          if ss = [] then (Inr s, hist)
          else if \<not> client pr then (fallback_summary summaries, hist)
          else
            (case chat ev hist (summary_request ev summaries) of
               Raises e \<Rightarrow> (fallback_summary summaries, hist @ [summary_request ev summaries])
             | Content None \<Rightarrow> (fallback_summary summaries, hist @ [summary_request ev summaries])
             | Content (Some c) \<Rightarrow> (Inr (PStr (py_strip c)), hist @ [summary_request ev summaries])))"

section \<open>ai_processor.py: the batch over a document\<close>

text \<open>
  The state of \<^verbatim>\<open>process_document\<close>: the database, the requests made, the four local
  variables of the loop, and \<open>submitted\<close>, which records the pages that were handed to
  \<^verbatim>\<open>structure_text\<close>, in order.
\<close>

record batch =
  store :: db
  calls :: "request list"
  all_summaries :: "pyval list"
  all_keywords :: "pyval list"
  processed_count :: nat
  failed_count :: nat
  submitted :: "page list"

definition new_batch :: "db \<Rightarrow> request list \<Rightarrow> batch" where
  "new_batch d hist =
     \<lparr>store = d, calls = hist, all_summaries = [], all_keywords = [],
      processed_count = 0, failed_count = 0, submitted = []\<rparr>"

text \<open>\<^verbatim>\<open>list(dict.fromkeys(all_keywords))[:30]\<close>; a key that cannot be hashed raises.\<close>

fun fromkeys :: "pyval list \<Rightarrow> pydict \<Rightarrow> exc + pydict" where
  "fromkeys [] acc = Inr acc"
| "fromkeys (k # ks) acc =
     (if hashable k then fromkeys ks (dict_set acc k PNone) else Inl OtherException)"

definition unique_keywords :: "pyval list \<Rightarrow> exc + pyval list" where
  "unique_keywords ks =
     (case fromkeys ks [] of Inl e \<Rightarrow> Inl e | Inr d \<Rightarrow> Inr (take 30 (map fst d)))"

definition set_document_metadata :: "pyval \<Rightarrow> pyval list \<Rightarrow> document \<Rightarrow> document" where
  "set_document_metadata summary kws doc =
     doc\<lparr>document_summary := summary, document_keywords := kws, document_status := ''structured''\<rparr>"

text \<open>
  \<^verbatim>\<open>_update_document_metadata\<close>: everything is inside \<^verbatim>\<open>try\<close>, an exception is logged
  and leaves the document as it was. The log line before the write takes the length of the
  summary.
\<close>

definition update_document_metadata ::
  "env \<Rightarrow> processor \<Rightarrow> string \<Rightarrow> pyval list \<Rightarrow> pyval list \<Rightarrow> batch \<Rightarrow> batch" where
  "update_document_metadata ev pr did summaries kws b =
     (case generate_document_summary ev pr (calls b) summaries of
        (Inl e, h) \<Rightarrow> b\<lparr>calls := h\<rparr>
      | (Inr doc_summary, h) \<Rightarrow>
          (case unique_keywords kws of
             Inl e \<Rightarrow> b\<lparr>calls := h\<rparr>
           | Inr uk \<Rightarrow>
               (case documents_collection (store b) of
                  None \<Rightarrow> b\<lparr>calls := h\<rparr>
                | Some docs \<Rightarrow>
                    if \<not> has_len doc_summary \<or> document_write_error (store b) did
                    then b\<lparr>calls := h\<rparr>
                    else
                      (case update_one (\<lambda>x. document_id x = did)
                              (set_document_metadata doc_summary uk) docs of
                         None \<Rightarrow> b\<lparr>calls := h\<rparr>
                       | Some docs' \<Rightarrow>
                           b\<lparr>calls := h,
                             store := (store b)\<lparr>documents_collection := Some docs'\<rparr>\<rparr>))))"

definition no_key_summary :: string where
  "no_key_summary = ''[No API key - processing skipped]''"

text \<open>The loop of the branch without a key: every page is written, the result is not read.\<close>

definition mark_unprocessed :: "db \<Rightarrow> string \<Rightarrow> page list \<Rightarrow> db" where
  "mark_unprocessed d did pgs =
     fold (\<lambda>pg d'. snd (update_page_data d' did (page_num pg)
              (PDict get_default_structure) (PStr no_key_summary) (PList []))) pgs d"

text \<open>\<^verbatim>\<open>page.get("status") == "structured" and page.get("page_summary")\<close>\<close>

definition already_processed :: "page \<Rightarrow> bool" where
  "already_processed pg = (status pg = ''structured'' \<and> truthy (page_summary pg))"

text \<open>The branch of the loop for a page that is skipped.\<close>

definition skip_page :: "page \<Rightarrow> batch \<Rightarrow> exc option \<times> batch" where
  "skip_page pg b =
     (let b1 = (if truthy (page_summary pg)
                then b\<lparr>all_summaries := all_summaries b @ [page_summary pg]\<rparr> else b)
      in if truthy (page_keywords pg)
         then (case py_extend (all_keywords b1) (page_keywords pg) of
                 Inl e \<Rightarrow> (Some e, b1)
               | Inr ks \<Rightarrow> (None, b1\<lparr>all_keywords := ks, processed_count := Suc (processed_count b1)\<rparr>))
         else (None, b1\<lparr>processed_count := Suc (processed_count b1)\<rparr>))"

text \<open>The three-way test on \<^verbatim>\<open>processing_status\<close>: only \<^verbatim>\<open>no_api_key\<close> counts as failed.\<close>

definition count_status :: "pyval \<Rightarrow> batch \<Rightarrow> batch" where
  "count_status ps b =
     (if ps = PStr ''no_api_key'' then b\<lparr>failed_count := Suc (failed_count b)\<rparr>
      else b\<lparr>processed_count := Suc (processed_count b)\<rparr>)"

text \<open>
  From \<^verbatim>\<open>page_summary = structured_data.get("summary", "")\<close> to the end of the loop body.
  The two log lines slice the summary and join the first keywords, which raises on values
  of other types.
\<close>

definition store_result :: "string \<Rightarrow> page \<Rightarrow> pydict \<Rightarrow> batch \<Rightarrow> exc option \<times> batch" where
  "store_result did pg sd b =
     (let summ = py_get sd ''summary'' (PStr []);
          kws = py_get sd ''keywords'' (PList [])
      in if truthy summ \<and> \<not> sliceable summ then (Some OtherException, b)
         else if truthy kws \<and> \<not> joinable kws then (Some OtherException, b)
         else
           (case update_page_data (store b) did (page_num pg) (PDict sd) summ kws of
              (ok, d') \<Rightarrow>
                if \<not> ok then (None, b\<lparr>store := d', failed_count := Suc (failed_count b)\<rparr>)
                else
                  (case py_extend (all_keywords b) kws of
                     Inl e \<Rightarrow> (Some e, b\<lparr>store := d', all_summaries := all_summaries b @ [summ]\<rparr>)
                   | Inr ks \<Rightarrow>
                       (None, b\<lparr>store := d', all_summaries := all_summaries b @ [summ],
                                all_keywords := ks\<rparr>))))"

text \<open>The body of \<^verbatim>\<open>for idx, page in enumerate(pages, 1)\<close>; \<open>Some e\<close> is an exception that ends the run.\<close>

definition process_page :: "env \<Rightarrow> processor \<Rightarrow> string \<Rightarrow> page \<Rightarrow> batch \<Rightarrow> exc option \<times> batch" where
  "process_page ev pr did pg b =
     (if already_processed pg then skip_page pg b
      else
        (case structure_text ev pr (calls b) (raw_text pg) 8000 of
           (Inl e, h) \<Rightarrow> (Some e, b\<lparr>calls := h, submitted := submitted b @ [pg]\<rparr>)
         | (Inr sd, h) \<Rightarrow>
             store_result did pg sd
               (count_status (py_get sd ''processing_status'' (PStr ''unknown''))
                  (b\<lparr>calls := h, submitted := submitted b @ [pg]\<rparr>))))"

fun process_pages :: "env \<Rightarrow> processor \<Rightarrow> string \<Rightarrow> page list \<Rightarrow> batch \<Rightarrow> exc option \<times> batch" where
  "process_pages ev pr did [] b = (None, b)"
| "process_pages ev pr did (pg # pgs) b =
     (case process_page ev pr did pg b of
        (Some e, b') \<Rightarrow> (Some e, b')
      | (None, b') \<Rightarrow> process_pages ev pr did pgs b')"

definition process_document ::
  "env \<Rightarrow> processor \<Rightarrow> db \<Rightarrow> request list \<Rightarrow> string \<Rightarrow> exc option \<times> batch" where
  "process_document ev pr d hist did =
     (if unconfigured pr
      then (None, new_batch (mark_unprocessed d did (get_raw_text d did)) hist)
      else
        let pgs = get_raw_text d did
        in if pgs = [] then (None, new_batch d hist)
           else
             (case process_pages ev pr did pgs (new_batch d hist) of
                (Some e, b) \<Rightarrow> (Some e, b)
              | (None, b) \<Rightarrow>
                  (None, if all_summaries b \<noteq> []
                         then update_document_metadata ev pr did (all_summaries b) (all_keywords b) b
                         else b)))"

section \<open>Reference definitions for the properties\<close>


text \<open>
  What one page adds to an aggregate list and to the aggregate key fields in
  \<^verbatim>\<open>create_document_structure\<close>.
\<close>

definition page_list_field :: "string \<Rightarrow> page \<Rightarrow> pyval list" where
  "page_list_field name p =
     (case structured_data p of
        PDict sd \<Rightarrow> if sd = [] then [] else list_items (py_get sd name (PList []))
      | _ \<Rightarrow> [])"

definition page_key_fields :: "page \<Rightarrow> pydict" where
  "page_key_fields p =
     (case structured_data p of
        PDict sd \<Rightarrow>
          if sd = [] then []
          else (case py_get sd ''key_fields'' (PDict []) of PDict kf \<Rightarrow> kf | _ \<Rightarrow> [])
      | _ \<Rightarrow> [])"

text \<open>
  The aggregation as the specification words it: a page whose structured data is present
  and well-typed is merged, any other page is skipped as a whole.
\<close>

definition well_formed_record :: "pyval \<Rightarrow> bool" where
  "well_formed_record v =
     (case v of
        PDict sd \<Rightarrow>
          sd \<noteq> []
          \<and> is_list (py_get sd ''sections'' (PList []))
          \<and> is_list (py_get sd ''measurements'' (PList []))
          \<and> is_dict (py_get sd ''key_fields'' (PDict []))
          \<and> is_list (py_get sd ''tables'' (PList []))
      | _ \<Rightarrow> False)"

definition claimed_merge_page :: "unified_doc \<Rightarrow> page \<Rightarrow> unified_doc" where
  "claimed_merge_page u p =
     (if well_formed_record (structured_data p)
      then u\<lparr>all_sections := all_sections u @ page_list_field ''sections'' p,
             all_measurements := all_measurements u @ page_list_field ''measurements'' p,
             all_key_fields := dict_update (all_key_fields u) (page_key_fields p),
             all_tables := all_tables u @ page_list_field ''tables'' p\<rparr>
      else u)"

text \<open>
  A page as \<^verbatim>\<open>process_document\<close> stores it when the reply has the six keys but a
  string where the list of sections belongs, and an aggregate that is still empty.
\<close>

definition mixed_page :: page where
  "mixed_page =
     \<lparr>doc_id = ''d1'', page_num = 1, raw_text = ''Width 12 mm'', status = ''structured'',
      page_summary = PStr ''A drawing'', page_keywords = PList [],
      structured_data = PDict
        [(PStr ''summary'', PStr ''A drawing''),
         (PStr ''keywords'', PList []),
         (PStr ''sections'', PStr ''intro''),
         (PStr ''measurements'', PList [PDict [(PStr ''value'', PInt 12), (PStr ''unit'', PStr ''mm'')]]),
         (PStr ''key_fields'', PDict []),
         (PStr ''tables'', PList []),
         (PStr ''processing_status'', PStr ''success'')]\<rparr>"

definition empty_aggregate :: unified_doc where
  "empty_aggregate =
     \<lparr>u_doc_id = ''d1'', u_filename = ''drawing.pdf'', total_pages = 1,
      all_sections = [], all_measurements = [], all_key_fields = [], all_tables = [],
      pages = [mixed_page], u_document_summary = PStr [], u_document_keywords = []\<rparr>"

text \<open>
  An invoice of which page 3 and page 7 both carry an invoice date; the pages are stored
  out of order.
\<close>

definition invoice_page :: "int \<Rightarrow> string \<Rightarrow> page" where
  "invoice_page n date =
     \<lparr>doc_id = ''inv'', page_num = n, raw_text = ''Invoice'', status = ''structured'',
      page_summary = PStr ''An invoice'', page_keywords = PList [PStr ''invoice''],
      structured_data = PDict
        [(PStr ''summary'', PStr ''An invoice''),
         (PStr ''keywords'', PList [PStr ''invoice'']),
         (PStr ''sections'', PList []),
         (PStr ''measurements'', PList []),
         (PStr ''key_fields'', PDict [(PStr ''invoice_date'', PStr date)]),
         (PStr ''tables'', PList []),
         (PStr ''processing_status'', PStr ''success'')]\<rparr>"

definition invoice_document :: document where
  "invoice_document =
     \<lparr>document_id = ''inv'', filename = ''invoice.pdf'', document_status = ''structured'',
      document_summary = PStr ''An invoice'', document_keywords = [PStr ''invoice'']\<rparr>"

definition invoice_db :: db where
  "invoice_db =
     \<lparr>pages_collection = Some [invoice_page 7 ''2024-02-01'', invoice_page 3 ''2024-01-01''],
      documents_collection = Some [invoice_document],
      read_error = False,
      write_error = (\<lambda>did pn. False),
      document_write_error = (\<lambda>did. False)\<rparr>"

text \<open>
  The schema of a structured record: the six required keys and the status tag, no other
  key, a string for the summary, a dict for the key fields and lists for the rest.
\<close>

definition allowed_keys :: "pyval list" where
  "allowed_keys = map PStr (required_keys @ [''processing_status''])"

definition has_schema :: "pydict \<Rightarrow> bool" where
  "has_schema d =
     (list_all (\<lambda>k. dict_has d (PStr k)) required_keys
      \<and> list_all (\<lambda>k. k \<in> set allowed_keys) (map fst d)
      \<and> is_str (py_get d ''summary'' PNone)
      \<and> is_list (py_get d ''keywords'' PNone)
      \<and> is_list (py_get d ''sections'' PNone)
      \<and> is_list (py_get d ''measurements'' PNone)
      \<and> is_dict (py_get d ''key_fields'' PNone)
      \<and> is_list (py_get d ''tables'' PNone))"

text \<open>
  A processor with a key and a client, and a service whose reply is a JSON object with
  the six keys, each of them \<^verbatim>\<open>null\<close>.
\<close>

definition configured_processor :: processor where
  "configured_processor = \<lparr>api_key = Some ''sk-test'', client = True\<rparr>"

definition null_reply :: string where
  \<open>null_reply = ''{"summary": null, "keywords": null, "sections": null, "measurements": null, "key_fields": null, "tables": null}''\<close>

definition null_reply_value :: pydict where
  "null_reply_value =
     [(PStr ''summary'', PNone),
      (PStr ''keywords'', PNone),
      (PStr ''sections'', PNone),
      (PStr ''measurements'', PNone),
      (PStr ''key_fields'', PNone),
      (PStr ''tables'', PNone)]"

definition null_reply_env :: env where
  "null_reply_env =
     \<lparr>chat = (\<lambda>h r. Content (Some null_reply)),
      loads = (\<lambda>s. if s = null_reply then Some (PDict null_reply_value) else None),
      py_repr = (\<lambda>v. ''None'')\<rparr>"

text \<open>A service that refuses every request for exceeding the rate limit.\<close>

definition rate_limited_env :: env where
  "rate_limited_env =
     \<lparr>chat = (\<lambda>h r. Raises RateLimitError), loads = (\<lambda>s. None), py_repr = (\<lambda>v. ''None'')\<rparr>"

text \<open>
  A document of two pages as \<^verbatim>\<open>save_pdf_with_pages\<close> stores it, and a service that
  answers the first structuring request with a complete record whose summary is \<open>S1\<close>,
  refuses the following ones for exceeding the rate limit, and answers a request for a
  document summary.
\<close>

definition raw_page :: "int \<Rightarrow> string \<Rightarrow> page" where
  "raw_page n t =
     \<lparr>doc_id = ''doc'', page_num = n, raw_text = t, status = ''raw'',
      page_summary = PStr [], page_keywords = PList [], structured_data = PDict []\<rparr>"

definition raw_document :: document where
  "raw_document =
     \<lparr>document_id = ''doc'', filename = ''invoice.pdf'', document_status = ''raw'',
      document_summary = PStr [], document_keywords = []\<rparr>"

definition two_page_db :: db where
  "two_page_db =
     \<lparr>pages_collection = Some [raw_page 1 ''Invoice 4711'', raw_page 2 ''Terms of payment''],
      documents_collection = Some [raw_document],
      read_error = False,
      write_error = (\<lambda>did pn. False),
      document_write_error = (\<lambda>did. False)\<rparr>"

definition s1_reply :: string where
  \<open>s1_reply = ''{"summary": "S1", "keywords": ["invoice"], "sections": [], "measurements": [], "key_fields": {}, "tables": []}''\<close>

definition s1_value :: pydict where
  "s1_value =
     [(PStr ''summary'', PStr ''S1''),
      (PStr ''keywords'', PList [PStr ''invoice'']),
      (PStr ''sections'', PList []),
      (PStr ''measurements'', PList []),
      (PStr ''key_fields'', PDict []),
      (PStr ''tables'', PList [])]"

definition two_page_env :: env where
  "two_page_env =
     \<lparr>chat = (\<lambda>h r. case r of
                Request StructurePrompt t \<Rightarrow>
                  if h = [] then Content (Some s1_reply) else Raises RateLimitError
              | Request SummaryPrompt t \<Rightarrow> Content (Some ''Overall summary'')),
      loads = (\<lambda>s. if s = s1_reply then Some (PDict s1_value) else None),
      py_repr = (\<lambda>v. ''None'')\<rparr>"

text \<open>
  A service whose reply to a structuring request has the six keys with \<^verbatim>\<open>null\<close> for the
  summary and well-typed values for the rest, and which fails every request for a document
  summary.
\<close>

definition no_summary_reply :: string where
  \<open>no_summary_reply = ''{"summary": null, "keywords": [], "sections": [], "measurements": [], "key_fields": {}, "tables": []}''\<close>

definition no_summary_value :: pydict where
  "no_summary_value =
     [(PStr ''summary'', PNone),
      (PStr ''keywords'', PList []),
      (PStr ''sections'', PList []),
      (PStr ''measurements'', PList []),
      (PStr ''key_fields'', PDict []),
      (PStr ''tables'', PList [])]"

definition no_summary_env :: env where
  "no_summary_env =
     \<lparr>chat = (\<lambda>h r. case r of
                Request StructurePrompt t \<Rightarrow> Content (Some no_summary_reply)
              | Request SummaryPrompt t \<Rightarrow> Raises APIError),
      loads = (\<lambda>s. if s = no_summary_reply then Some (PDict no_summary_value) else None),
      py_repr = (\<lambda>v. ''None'')\<rparr>"

text \<open>The requests of a history that ask for the structure of a page.\<close>

fun is_structure_request :: "request \<Rightarrow> bool" where
  "is_structure_request (Request StructurePrompt t) = True"
| "is_structure_request (Request SummaryPrompt t) = False"

text \<open>
  The marks the branch without a key leaves on a page, and a series of later runs of
  \<^verbatim>\<open>process_document\<close> on the same document, each with its own service and processor,
  on the database and the history the run before left.
\<close>

definition unprocessed_mark :: "page \<Rightarrow> bool" where
  "unprocessed_mark p =
     (status p = ''structured''
      \<and> structured_data p = PDict get_default_structure
      \<and> page_summary p = PStr no_key_summary
      \<and> page_keywords p = PList [])"

fun repeat_document ::
  "(env \<times> processor) list \<Rightarrow> db \<Rightarrow> request list \<Rightarrow> string \<Rightarrow> (exc option \<times> batch) list" where
  "repeat_document [] d hist did = []"
| "repeat_document (run # runs) d hist did =
     (let r = process_document (fst run) (snd run) d hist did
      in r # repeat_document runs (store (snd r)) (calls (snd r)) did)"

text \<open>A document with one page that was marked structured although its summary is empty.\<close>

definition retry_db :: db where
  "retry_db =
     \<lparr>pages_collection = Some [(raw_page 1 ''Invoice 4711'')\<lparr>status := ''structured''\<rparr>],
      documents_collection = Some [raw_document],
      read_error = False,
      write_error = (\<lambda>did pn. False),
      document_write_error = (\<lambda>did. False)\<rparr>"




text \<open>
  The write of the branch without a key seen as a function on a page, and the state in
  which every page of a document carries its marks.
\<close>

definition mark_page :: "page \<Rightarrow> page" where
  "mark_page = update_fields (PDict get_default_structure) (PStr no_key_summary) (PList [])"

definition all_marked :: "db \<Rightarrow> string \<Rightarrow> bool" where
  "all_marked d did =
     (case pages_collection d of
        None \<Rightarrow> True
      | Some xs \<Rightarrow> list_all (\<lambda>p. doc_id p = did \<longrightarrow> unprocessed_mark p) xs)"

section \<open>Properties of the OCR gate\<close>

lemma length_py_strip_le: "length (py_strip s) \<le> length s"
proof -
  have "length (py_strip s) = length (dropWhile py_isspace (rev (dropWhile py_isspace s)))"
    by (simp add: py_strip_def)
  also have "\<dots> \<le> length (rev (dropWhile py_isspace s))"
    by (rule length_dropWhile_le)
  also have "\<dots> \<le> length s"
    by (simp add: length_dropWhile_le)
  finally show ?thesis .
qed

lemma sample_pages_triggers:
  "(case sample_pages ps of Inl e \<Rightarrow> True | Inr b \<Rightarrow> b) = (\<exists>p\<in>set ps. page_triggers p)"
  by (induction ps) (auto simp: page_triggers_def split: sum.splits)

lemma needs_ocr_char:
  "needs_ocr (Inr doc) = (\<exists>p\<in>set (take 3 doc). page_triggers p)"
proof -
  have "take (min 3 (length doc)) doc = take 3 doc"
    by (simp add: min_def)
  then show ?thesis
    by (simp add: needs_ocr_def needs_ocr_body_def sample_pages_triggers)
qed

text \<open>
  C9. The gate looks at the first three pages only; it answers true as soon as one of them
  has fewer than 50 characters of text or cannot be read, and true when the file cannot be
  opened; otherwise false. The per-page test is \<open>length < threshold\<close>, with 50 the default.
\<close>

theorem needs_ocr_samples_first_three:
  "needs_ocr (Inr doc) = needs_ocr (Inr (take 3 doc))
   \<and> (needs_ocr (Inr doc) = (\<exists>p\<in>set (take 3 doc). page_triggers p))
   \<and> (\<forall>t. Inr t \<in> set (take 3 doc) \<and> length t < 50 \<longrightarrow> needs_ocr (Inr doc))
   \<and> (\<forall>e. Inl e \<in> set (take 3 doc) \<longrightarrow> needs_ocr (Inr doc))
   \<and> (\<forall>e. needs_ocr (Inl e))
   \<and> (is_text_scannable n th = (n < th))
   \<and> (is_text_scannable_default n = (n < 50))"
proof -
  have a: "needs_ocr (Inr doc) = needs_ocr (Inr (take 3 doc))"
    by (simp add: needs_ocr_char)
  have b: "\<forall>t. Inr t \<in> set (take 3 doc) \<and> length t < 50 \<longrightarrow> needs_ocr (Inr doc)"
  proof (intro allI impI)
    fix t
    assume h: "Inr t \<in> set (take 3 doc) \<and> length t < 50"
    have "length (py_strip t) < 50"
      using h length_py_strip_le [of t] by linarith
    then have "page_triggers (Inr t)"
      by (simp add: page_triggers_def)
    with h show "needs_ocr (Inr doc)"
      unfolding needs_ocr_char by blast
  qed
  have c: "\<forall>e. Inl e \<in> set (take 3 doc) \<longrightarrow> needs_ocr (Inr doc)"
  proof (intro allI impI)
    fix e :: exc
    assume h: "Inl e \<in> set (take 3 doc)"
    have "page_triggers (Inl e)"
      by (simp add: page_triggers_def)
    with h show "needs_ocr (Inr doc)"
      unfolding needs_ocr_char by blast
  qed
  have d: "\<forall>e. needs_ocr (Inl e)"
    by (simp add: needs_ocr_def needs_ocr_body_def)
  show ?thesis
    using a b c d
    by (simp add: needs_ocr_char is_text_scannable_def is_text_scannable_default_def)
qed

theorem needs_ocr_samples_first_three_witness:
  "Inr ''page one of a scan'' \<in> set (take 3 [Inr ''page one of a scan'', Inl OtherException])
   \<and> length ''page one of a scan'' < 50
   \<and> needs_ocr (Inr [Inr ''page one of a scan'', Inl OtherException])"
  using needs_ocr_samples_first_three [of "[Inr ''page one of a scan'', Inl OtherException]" 0 0]
  by (simp add: page_triggers_def)

section \<open>Properties of the truncation\<close>

lemmas float_eval =
  times_0_7_def times_0_3_def int_times_float_def round53_def Let_def bitlen.simps

lemma times_default: "times_0_7 8000 = 5600" "times_0_3 8000 = 2400"
  by (simp_all add: float_eval)

lemma times_small: "times_0_7 3 = 2" "times_0_3 3 = 0"
  by (simp_all add: float_eval)

lemma times_0_7_rounds_down: "times_0_7 90 = 62"
  by (simp add: float_eval)

lemma length_truncation_marker: "length truncation_marker = 36"
  by (simp add: truncation_marker_def)

text \<open>
  With the default budget of 8000 a longer text is cut to its first 5600 characters, the
  marker and its last 2400 characters.
\<close>

lemma text_to_process_default_budget:
  assumes "8000 < length raw"
  shows "text_to_process raw 8000 = take 5600 raw @ truncation_marker @ drop (length raw - 2400) raw"
    and "length (text_to_process raw 8000) = 5600 + 2400 + length truncation_marker"
  using assms by (simp_all add: text_to_process_def times_default slice_last_def)

text \<open>
  C7. The text sent for a raw text longer than the budget is the first 0.7 of the budget,
  the marker and the last 0.3 of the budget. With a budget of 3 the last part should be
  empty, since \<^verbatim>\<open>int(3 * 0.3)\<close> is 0; the slice \<^verbatim>\<open>raw_text[-0:]\<close> is the whole text
  instead, so the text sent is longer than the original.
\<close>

theorem text_to_process_small_budget:
  "text_to_process ''abcdef'' 3 = ''ab'' @ truncation_marker @ ''abcdef''
   \<and> text_to_process ''abcdef'' 3
       \<noteq> take 2 ''abcdef'' @ truncation_marker @ drop (length ''abcdef'' - 0) ''abcdef''"
  by (simp add: text_to_process_def times_small slice_last_def)

section \<open>Properties of the document keywords\<close>

lemma py_eq_is_str: "is_str k \<Longrightarrow> py_eq k' k = (k' = k)"
  by (cases k; cases k') (auto simp: py_eq_def)

lemma py_eq_str_left: "py_eq (PStr a) k = (k = PStr a)"
  by (auto simp: py_eq_def)








section \<open>Properties of dict lookups\<close>

lemma dict_get_str: "dict_get d (PStr k) = map_of d (PStr k)"
  by (induction d) (auto simp: py_eq_is_str)

lemma dict_get_dict_set:
  "dict_get (dict_set d k' v') (PStr k) = (if k' = PStr k then Some v' else dict_get d (PStr k))"
proof (induction d)
  case Nil
  then show ?case by (simp add: py_eq_is_str)
next
  case (Cons p d)
  obtain a b where p: "p = (a, b)" by (cases p)
  show ?case
  proof (cases "a = PStr k")
    case True
    then show ?thesis
      by (cases "k' = PStr k") (simp_all add: p py_eq_str_left py_eq_is_str)
  next
    case False
    then show ?thesis
      using Cons by (cases "k' = PStr k") (simp_all add: p py_eq_is_str)
  qed
qed

lemma dict_get_append:
  "dict_get (xs @ ys) k = (case dict_get xs k of Some v \<Rightarrow> Some v | None \<Rightarrow> dict_get ys k)"
  by (induction xs) auto

text \<open>After \<^verbatim>\<open>acc.update(e)\<close> a string key holds the value \<open>e\<close> gives it, else its old value.\<close>

lemma dict_get_dict_update:
  "dict_get (dict_update acc e) (PStr k)
     = (case dict_get (rev e) (PStr k) of Some v \<Rightarrow> Some v | None \<Rightarrow> dict_get acc (PStr k))"
proof (induction e arbitrary: acc)
  case Nil
  then show ?case by (simp add: dict_update_def)
next
  case (Cons p e)
  have step: "dict_update acc (p # e) = dict_update (dict_set acc (fst p) (snd p)) e"
    by (simp add: dict_update_def)
  show ?case
    unfolding step Cons.IH
    by (cases p) (simp add: dict_get_append dict_get_dict_set py_eq_is_str split: option.splits)
qed

lemma dict_get_rev_distinct:
  "distinct (map fst e) \<Longrightarrow> dict_get (rev e) (PStr k) = dict_get e (PStr k)"
proof (induction e)
  case Nil
  then show ?case by simp
next
  case (Cons p e)
  obtain a b where p: "p = (a, b)" by (cases p)
  have absent: "a = PStr k \<Longrightarrow> dict_get e (PStr k) = None"
    using Cons.prems by (simp add: p dict_get_str map_of_eq_None_iff)
  show ?case
    using Cons absent
    by (cases "a = PStr k") (simp_all add: p dict_get_append py_eq_is_str split: option.splits)
qed

lemma dict_get_rev_None:
  "dict_get e (PStr k) = None \<Longrightarrow> dict_get (rev e) (PStr k) = None"
  by (simp add: dict_get_str map_of_eq_None_iff)

section \<open>Properties of the aggregation\<close>

lemma merge_page_fields:
  "all_sections (merge_page u p) = all_sections u @ page_list_field ''sections'' p"
  "all_measurements (merge_page u p) = all_measurements u @ page_list_field ''measurements'' p"
  "all_tables (merge_page u p) = all_tables u @ page_list_field ''tables'' p"
  "all_key_fields (merge_page u p) = dict_update (all_key_fields u) (page_key_fields p)"
  "pages (merge_page u p) = pages u"
  by (auto simp: merge_page_def page_list_field_def page_key_fields_def dict_update_def
      split: pyval.splits)

lemma fold_merge_page:
  "all_sections (fold (\<lambda>p u. merge_page u p) ps u)
     = all_sections u @ concat (map (page_list_field ''sections'') ps)"
  "all_measurements (fold (\<lambda>p u. merge_page u p) ps u)
     = all_measurements u @ concat (map (page_list_field ''measurements'') ps)"
  "all_tables (fold (\<lambda>p u. merge_page u p) ps u)
     = all_tables u @ concat (map (page_list_field ''tables'') ps)"
  "all_key_fields (fold (\<lambda>p u. merge_page u p) ps u)
     = fold (\<lambda>p acc. dict_update acc (page_key_fields p)) ps (all_key_fields u)"
  "pages (fold (\<lambda>p u. merge_page u p) ps u) = pages u"
  by (induction ps arbitrary: u) (simp_all add: merge_page_fields)

lemma fold_key_fields_absent:
  "\<forall>p\<in>set ps. dict_get (page_key_fields p) (PStr k) = None \<Longrightarrow>
   dict_get (fold (\<lambda>p acc. dict_update acc (page_key_fields p)) ps acc) (PStr k)
     = dict_get acc (PStr k)"
  by (induction ps arbitrary: acc) (simp_all add: dict_get_dict_update dict_get_rev_None)

text \<open>The value a later page gives to a key stands, whatever earlier pages gave.\<close>

lemma fold_key_fields_last:
  assumes "distinct (map fst (page_key_fields q))"
    and "dict_get (page_key_fields q) (PStr k) = Some v"
    and "\<forall>p\<in>set after. dict_get (page_key_fields p) (PStr k) = None"
  shows "dict_get (fold (\<lambda>p acc. dict_update acc (page_key_fields p)) (before @ q # after) acc)
           (PStr k) = Some v"
  using assms by (simp add: fold_key_fields_absent dict_get_dict_update dict_get_rev_distinct)

lemma merge_page_well_formed:
  "well_formed_record (structured_data p) \<Longrightarrow> merge_page u p = claimed_merge_page u p"
  by (cases "structured_data p")
    (auto simp: well_formed_record_def claimed_merge_page_def merge_page_def page_list_field_def
      page_key_fields_def elim: is_dict.elims)

lemma merge_page_skips:
  "\<not> is_dict (structured_data p) \<or> \<not> truthy (structured_data p) \<Longrightarrow> merge_page u p = u"
  by (cases "structured_data p") (auto simp: merge_page_def)

lemma page_list_field_guard:
  "structured_data p = PDict sd \<Longrightarrow> sd \<noteq> [] \<Longrightarrow>
   page_list_field name p = (case py_get sd name (PList []) of PList xs \<Rightarrow> xs | _ \<Rightarrow> [])"
  by (cases "py_get sd name (PList [])") (simp_all add: page_list_field_def)


text \<open>
  C5, as stated: every page is either merged as a whole or skipped as a whole. It fails on
  a page whose structured data is a dict with a string where the list of sections
  belongs: the page is not well-formed, yet its measurements are merged, and its sections
  are left out.
\<close>

theorem merge_page_not_all_or_nothing:
  "merge_page empty_aggregate mixed_page \<noteq> claimed_merge_page empty_aggregate mixed_page
   \<and> \<not> well_formed_record (structured_data mixed_page)
   \<and> all_measurements (merge_page empty_aggregate mixed_page)
       = [PDict [(PStr ''value'', PInt 12), (PStr ''unit'', PStr ''mm'')]]
   \<and> all_sections (merge_page empty_aggregate mixed_page) = []"
proof -
  have wf: "\<not> well_formed_record (structured_data mixed_page)"
    by (simp add: well_formed_record_def mixed_page_def py_get_def py_eq_def)
  have m: "all_measurements (merge_page empty_aggregate mixed_page)
       = [PDict [(PStr ''value'', PInt 12), (PStr ''unit'', PStr ''mm'')]]"
    by (simp add: merge_page_def mixed_page_def empty_aggregate_def py_get_def py_eq_def)
  have s: "all_sections (merge_page empty_aggregate mixed_page) = []"
    by (simp add: merge_page_def mixed_page_def empty_aggregate_def py_get_def py_eq_def)
  have "all_measurements (claimed_merge_page empty_aggregate mixed_page) = []"
    using wf by (simp add: claimed_merge_page_def empty_aggregate_def)
  with m have "merge_page empty_aggregate mixed_page \<noteq> claimed_merge_page empty_aggregate mixed_page"
    by auto
  with wf m s show ?thesis by simp
qed

text \<open>
  C5, amended. The pages are visited in ascending page number. Each aggregate list is the
  concatenation, in that order and without deduplication, of what the pages contribute; a
  page contributes to a list only if its structured data is a non-empty dict and the
  field is a list, each field being tested on its own. The key fields are merged by
  overwrite in page order, so the value of the last page that has a key stands. A page
  with well-typed structured data is merged in full; a page whose structured data is
  missing, empty or not a dict changes nothing; no case raises.
\<close>

theorem create_document_structure_aggregate:
  assumes "get_document_details d did = Some (doc, ps)"
  shows "\<exists>u. create_document_structure d did = Some u
     \<and> pages u = ps
     \<and> sorted (map page_num ps)
     \<and> all_sections u = concat (map (page_list_field ''sections'') ps)
     \<and> all_measurements u = concat (map (page_list_field ''measurements'') ps)
     \<and> all_tables u = concat (map (page_list_field ''tables'') ps)
     \<and> all_key_fields u = fold (\<lambda>p acc. dict_update acc (page_key_fields p)) ps []
     \<and> (\<forall>p sd name. structured_data p = PDict sd \<and> sd \<noteq> [] \<longrightarrow>
           page_list_field name p = (case py_get sd name (PList []) of PList xs \<Rightarrow> xs | _ \<Rightarrow> []))
     \<and> (\<forall>p a. well_formed_record (structured_data p) \<longrightarrow> merge_page a p = claimed_merge_page a p)
     \<and> (\<forall>p a. \<not> is_dict (structured_data p) \<or> \<not> truthy (structured_data p) \<longrightarrow> merge_page a p = a)
     \<and> (\<forall>before q after k v.
           ps = before @ q # after
           \<and> distinct (map fst (page_key_fields q))
           \<and> dict_get (page_key_fields q) (PStr k) = Some v
           \<and> (\<forall>p\<in>set after. dict_get (page_key_fields p) (PStr k) = None)
           \<longrightarrow> dict_get (all_key_fields u) (PStr k) = Some v)"
proof -
  define u where "u = the (create_document_structure d did)"
  have cs: "create_document_structure d did = Some u"
    using assms by (simp add: u_def create_document_structure_def)
  have pg: "pages u = ps"
    using assms cs by (auto simp: create_document_structure_def fold_merge_page)
  have srt: "sorted (map page_num ps)"
    using assms
    by (auto simp: get_document_details_def find_pages_def split: option.splits if_splits)
  have sec: "all_sections u = concat (map (page_list_field ''sections'') ps)"
    using assms cs by (auto simp: create_document_structure_def fold_merge_page)
  have mea: "all_measurements u = concat (map (page_list_field ''measurements'') ps)"
    using assms cs by (auto simp: create_document_structure_def fold_merge_page)
  have tab: "all_tables u = concat (map (page_list_field ''tables'') ps)"
    using assms cs by (auto simp: create_document_structure_def fold_merge_page)
  have kf: "all_key_fields u = fold (\<lambda>p acc. dict_update acc (page_key_fields p)) ps []"
    using assms cs by (auto simp: create_document_structure_def fold_merge_page)
  have last: "\<forall>before q after k v.
           ps = before @ q # after
           \<and> distinct (map fst (page_key_fields q))
           \<and> dict_get (page_key_fields q) (PStr k) = Some v
           \<and> (\<forall>p\<in>set after. dict_get (page_key_fields p) (PStr k) = None)
           \<longrightarrow> dict_get (all_key_fields u) (PStr k) = Some v"
    unfolding kf using fold_key_fields_last by blast
  show ?thesis
    using cs pg srt sec mea tab kf last page_list_field_guard merge_page_well_formed merge_page_skips
    by blast
qed

theorem create_document_structure_aggregate_witness:
  "get_document_details invoice_db ''inv''
     = Some (invoice_document, [invoice_page 3 ''2024-01-01'', invoice_page 7 ''2024-02-01''])
   \<and> (\<exists>u. create_document_structure invoice_db ''inv'' = Some u
         \<and> dict_get (all_key_fields u) (PStr ''invoice_date'') = Some (PStr ''2024-02-01''))"
proof -
  have h: "get_document_details invoice_db ''inv''
     = Some (invoice_document, [invoice_page 3 ''2024-01-01'', invoice_page 7 ''2024-02-01''])"
    by (simp add: get_document_details_def invoice_db_def find_pages_def invoice_page_def
        invoice_document_def)
  from create_document_structure_aggregate [OF h]
  obtain u where cs: "create_document_structure invoice_db ''inv'' = Some u"
    and last: "\<forall>before q after k v.
           [invoice_page 3 ''2024-01-01'', invoice_page 7 ''2024-02-01''] = before @ q # after
           \<and> distinct (map fst (page_key_fields q))
           \<and> dict_get (page_key_fields q) (PStr k) = Some v
           \<and> (\<forall>p\<in>set after. dict_get (page_key_fields p) (PStr k) = None)
           \<longrightarrow> dict_get (all_key_fields u) (PStr k) = Some v"
    by blast
  have "dict_get (all_key_fields u) (PStr ''invoice_date'') = Some (PStr ''2024-02-01'')"
    using last [rule_format, of "[invoice_page 3 ''2024-01-01'']" "invoice_page 7 ''2024-02-01''" "[]"
        "''invoice_date''" "PStr ''2024-02-01''"]
    by (simp add: page_key_fields_def invoice_page_def py_get_def py_eq_def)
  with h cs show ?thesis by simp
qed

section \<open>Properties of structure_text\<close>

lemma default_with_eq:
  "default_with tag =
     [(PStr ''summary'', PStr []),
      (PStr ''keywords'', PList []),
      (PStr ''sections'', PList []),
      (PStr ''measurements'', PList []),
      (PStr ''key_fields'', PDict []),
      (PStr ''tables'', PList []),
      (PStr ''processing_status'', PStr tag)]"
  by (simp add: default_with_def get_default_structure_def py_eq_def)

lemma has_schema_default_with: "has_schema (default_with tag)"
  by (simp add: default_with_eq has_schema_def required_keys_def allowed_keys_def dict_has_def
      py_get_def py_eq_def)

lemma status_default_with: "py_get (default_with tag) ''processing_status'' dflt = PStr tag"
  by (simp add: default_with_eq py_get_def py_eq_def)

lemma dict_has_dict_set:
  "dict_has d (PStr k) \<Longrightarrow> dict_has (dict_set d k' v') (PStr k)"
  by (simp add: dict_has_def dict_get_dict_set split: option.splits)

lemma dict_has_dict_set_same: "dict_has (dict_set d (PStr k) v) (PStr k)"
  by (simp add: dict_has_def dict_get_dict_set)

lemma dict_has_dict_update:
  "dict_has d (PStr k) \<Longrightarrow> dict_has (dict_update d e) (PStr k)"
  by (simp add: dict_has_def dict_get_dict_update split: option.splits)

lemma all_in_dict:
  "all_in (PDict dd) ks = Inr True \<Longrightarrow> list_all (\<lambda>k. dict_has dd (PStr k)) ks"
  by (induction ks) (auto split: if_splits)

lemma default_has_required: "list_all (\<lambda>k. dict_has get_default_structure (PStr k)) required_keys"
  by (simp add: required_keys_def get_default_structure_def dict_has_def py_eq_def)

text \<open>
  Whatever the reply, a result of the parsing step holds the six keys and a tag; it is
  the default tagged \<open>json_error\<close> or it is tagged \<open>success\<close> or \<open>partial_success\<close>.
\<close>

lemma parse_reply_keys:
  assumes "parse_reply ev content = Inr d"
  shows "list_all (\<lambda>k. dict_has d (PStr k)) required_keys"
    and "dict_has d (PStr ''processing_status'')"
    and "d = default_with ''json_error''
         \<or> py_get d ''processing_status'' dflt = PStr ''success''
         \<or> py_get d ''processing_status'' dflt = PStr ''partial_success''"
proof -
  let ?clean = "py_strip (py_replace ''```'' [] (py_replace ''```json'' [] content))"
  have "list_all (\<lambda>k. dict_has d (PStr k)) required_keys
      \<and> dict_has d (PStr ''processing_status'')
      \<and> (d = default_with ''json_error''
         \<or> py_get d ''processing_status'' dflt = PStr ''success''
         \<or> py_get d ''processing_status'' dflt = PStr ''partial_success'')"
  proof (cases "loads ev ?clean")
    case None
    then have "d = default_with ''json_error''"
      using assms by (simp add: parse_reply_def)
    then show ?thesis
      using has_schema_default_with [of "''json_error''"]
      by (simp add: has_schema_def default_with_def dict_has_dict_set_same)
  next
    case (Some data)
    show ?thesis
    proof (cases "validate_structure data")
      case (Inl e)
      then show ?thesis
        using assms Some by (simp add: parse_reply_def)
    next
      case (Inr ok)
      show ?thesis
      proof (cases ok)
        case True
        then have set: "py_setitem data ''processing_status'' (PStr ''success'') = Inr d"
          using assms Some Inr by (simp add: parse_reply_def)
        then obtain dd where data: "data = PDict dd"
          and d: "d = dict_set dd (PStr ''processing_status'') (PStr ''success'')"
          by (cases data) auto
        have "list_all (\<lambda>k. dict_has dd (PStr k)) required_keys"
          using Inr True data all_in_dict by (simp add: validate_structure_def)
        then have "list_all (\<lambda>k. dict_has d (PStr k)) required_keys"
          by (simp add: d list_all_iff dict_has_dict_set)
        then show ?thesis
          by (simp add: d dict_has_dict_set_same py_get_def dict_get_dict_set)
      next
        case False
        then have "merge_partial data = Inr d"
          using assms Some Inr by (simp add: parse_reply_def)
        then obtain e where d: "d = dict_set (dict_update get_default_structure e)
            (PStr ''processing_status'') (PStr ''partial_success'')"
          by (cases data) auto
        have "list_all (\<lambda>k. dict_has (dict_update get_default_structure e) (PStr k)) required_keys"
          using default_has_required by (simp add: list_all_iff dict_has_dict_update)
        then have "list_all (\<lambda>k. dict_has d (PStr k)) required_keys"
          by (simp add: d list_all_iff dict_has_dict_set)
        then show ?thesis
          by (simp add: d dict_has_dict_set_same py_get_def dict_get_dict_set)
      qed
    qed
  qed
  then show "list_all (\<lambda>k. dict_has d (PStr k)) required_keys"
    and "dict_has d (PStr ''processing_status'')"
    and "d = default_with ''json_error''
         \<or> py_get d ''processing_status'' dflt = PStr ''success''
         \<or> py_get d ''processing_status'' dflt = PStr ''partial_success''"
    by simp_all
qed

text \<open>The result of \<^verbatim>\<open>structure_text\<close> is a default structure or a parsed reply.\<close>

lemma structure_text_result:
  "(\<exists>tag. fst (structure_text ev pr hist raw max_chars) = Inr (default_with tag))
   \<or> (\<exists>content d. parse_reply ev content = Inr d
         \<and> fst (structure_text ev pr hist raw max_chars) = Inr d)"
proof (cases "unconfigured pr \<or> raw = [] \<or> py_strip raw = []")
  case True
  then show ?thesis
    by (auto simp: structure_text_def)
next
  case False
  let ?t = "text_to_process raw max_chars"
  show ?thesis
  proof (cases "structure_text_try ev hist ?t")
    case (Inl e)
    then have "fst (structure_text ev pr hist raw max_chars) = Inr (on_exception e)"
      using False by (simp add: structure_text_def Let_def)
    then show ?thesis
      by (cases e) auto
  next
    case (Inr d)
    then have res: "fst (structure_text ev pr hist raw max_chars) = Inr d"
      using False by (simp add: structure_text_def Let_def)
    from Inr obtain content where "parse_reply ev content = Inr d"
      by (auto simp: structure_text_try_def split: call_outcome.splits option.splits)
    with res show ?thesis by blast
  qed
qed


lemma py_contains_raises: "py_contains data k = Inl e \<Longrightarrow> e = OtherException"
  by (cases data) auto

lemma all_in_raises: "all_in data ks = Inl e \<Longrightarrow> e = OtherException"
  by (induction ks) (auto split: sum.splits if_splits dest: py_contains_raises)

lemma py_setitem_raises: "py_setitem data k v = Inl e \<Longrightarrow> e = OtherException"
  by (cases data) auto

lemma merge_partial_raises: "merge_partial data = Inl e \<Longrightarrow> e = OtherException"
  by (cases data) auto

lemma clean_null_reply:
  "py_strip (py_replace ''```'' [] (py_replace ''```json'' [] null_reply)) = null_reply"
  by (simp add: null_reply_def py_strip_def py_isspace_def)

lemma structure_text_null_reply:
  "fst (structure_text null_reply_env configured_processor [] ''Invoice 4711'' 8000)
     = Inr (null_reply_value @ [(PStr ''processing_status'', PStr ''success'')])"
proof -
  have cfg: "\<not> unconfigured configured_processor"
    by (simp add: unconfigured_def configured_processor_def)
  have raw: "py_strip ''Invoice 4711'' \<noteq> []"
    by (simp add: py_strip_def py_isspace_def)
  have sent: "text_to_process ''Invoice 4711'' 8000 = ''Invoice 4711''"
    by (simp add: text_to_process_def)
  have val: "validate_structure (PDict null_reply_value) = Inr True"
    by (simp add: validate_structure_def required_keys_def null_reply_value_def dict_has_def py_eq_def)
  have parse: "parse_reply null_reply_env null_reply
     = Inr (null_reply_value @ [(PStr ''processing_status'', PStr ''success'')])"
    unfolding parse_reply_def clean_null_reply
    by (simp add: null_reply_env_def val) (simp add: null_reply_value_def py_eq_def)
  have "structure_text_try null_reply_env [] ''Invoice 4711''
     = Inr (null_reply_value @ [(PStr ''processing_status'', PStr ''success'')])"
    using parse by (simp add: structure_text_try_def null_reply_env_def)
  then show ?thesis
    using cfg raw by (simp add: structure_text_def sent)
qed

text \<open>
  C1, as stated: every result has the schema. It fails when the reply is a JSON object
  that has the six keys with \<^verbatim>\<open>null\<close> values: the keys are all that is checked, and the
  object is returned, tagged \<open>success\<close>, with \<^verbatim>\<open>None\<close> where a string, a dict and four
  lists belong.
\<close>

theorem structure_text_success_unchecked:
  "fst (structure_text null_reply_env configured_processor [] ''Invoice 4711'' 8000)
     = Inr (null_reply_value @ [(PStr ''processing_status'', PStr ''success'')])
   \<and> \<not> has_schema (null_reply_value @ [(PStr ''processing_status'', PStr ''success'')])"
  using structure_text_null_reply
  by (simp add: has_schema_def null_reply_value_def py_get_def py_eq_def)

text \<open>
  C1, amended. For every input \<^verbatim>\<open>structure_text\<close> returns a dict that holds the six
  required keys and the status tag, whatever the outcome of the call. Unless the tag is
  \<open>success\<close> or \<open>partial_success\<close> the dict is the default structure with its tag, which
  has the schema; a parsed reply is passed on with the values it came with.
\<close>

theorem structure_text_keys_total:
  "\<exists>d. fst (structure_text ev pr hist raw max_chars) = Inr d
     \<and> list_all (\<lambda>k. dict_has d (PStr k)) required_keys
     \<and> dict_has d (PStr ''processing_status'')
     \<and> (py_get d ''processing_status'' PNone \<noteq> PStr ''success''
         \<and> py_get d ''processing_status'' PNone \<noteq> PStr ''partial_success''
         \<longrightarrow> (\<exists>tag. d = default_with tag) \<and> has_schema d)"
proof -
  from structure_text_result [of ev pr hist raw max_chars]
  consider (dflt) tag where "fst (structure_text ev pr hist raw max_chars) = Inr (default_with tag)"
    | (parsed) content d where "parse_reply ev content = Inr d"
        "fst (structure_text ev pr hist raw max_chars) = Inr d"
    by blast
  then show ?thesis
  proof cases
    case dflt
    have "list_all (\<lambda>k. dict_has (default_with tag) (PStr k)) required_keys"
      using has_schema_default_with [of tag] by (simp add: has_schema_def)
    moreover have "dict_has (default_with tag) (PStr ''processing_status'')"
      by (simp add: default_with_def dict_has_dict_set_same)
    ultimately show ?thesis
      using dflt has_schema_default_with [of tag] by auto
  next
    case parsed
    show ?thesis
      using parsed(2) parse_reply_keys(1) [OF parsed(1)] parse_reply_keys(2) [OF parsed(1)]
        parse_reply_keys(3) [OF parsed(1), of PNone] has_schema_default_with
      by auto
  qed
qed

theorem structure_text_keys_total_witness:
  "py_get (default_with ''rate_limit_error'') ''processing_status'' PNone \<noteq> PStr ''success''
   \<and> py_get (default_with ''rate_limit_error'') ''processing_status'' PNone \<noteq> PStr ''partial_success''
   \<and> fst (structure_text rate_limited_env configured_processor [] ''Invoice 4711'' 8000)
       = Inr (default_with ''rate_limit_error'')
   \<and> has_schema (default_with ''rate_limit_error'')"
proof -
  have run: "fst (structure_text rate_limited_env configured_processor [] ''Invoice 4711'' 8000)
       = Inr (default_with ''rate_limit_error'')"
    by (simp add: structure_text_def unconfigured_def configured_processor_def py_strip_def
        py_isspace_def structure_text_try_def rate_limited_env_def)
  from structure_text_keys_total [of rate_limited_env configured_processor "[]" "''Invoice 4711''" 8000]
  have "py_get (default_with ''rate_limit_error'') ''processing_status'' PNone \<noteq> PStr ''success''
         \<and> py_get (default_with ''rate_limit_error'') ''processing_status'' PNone \<noteq> PStr ''partial_success''
         \<longrightarrow> has_schema (default_with ''rate_limit_error'')"
    unfolding run by auto
  moreover have "py_get (default_with ''rate_limit_error'') ''processing_status'' PNone
      = PStr ''rate_limit_error''"
    by (rule status_default_with)
  ultimately show ?thesis
    using run by simp
qed

text \<open>
  C2. \<^verbatim>\<open>structure_text\<close> always returns a dict and never an exception. With a key, a
  client and a text that is not blank, a call that raises gives the default structure
  tagged after the exception (\<open>auth_error\<close>, \<open>rate_limit_error\<close>, \<open>api_error\<close>,
  \<open>unknown_error\<close>); a reply that does not parse gives it tagged \<open>json_error\<close>; a reply
  without content, or an exception raised while the parsed reply is handled, gives it
  tagged \<open>unknown_error\<close>. The default structure is the six empty fields and the tag.
\<close>

theorem structure_text_absorbs_failures:
  "(\<exists>d. fst (structure_text ev pr hist raw max_chars) = Inr d)
   \<and> (\<not> unconfigured pr \<and> raw \<noteq> [] \<and> py_strip raw \<noteq> [] \<longrightarrow>
        (chat ev hist (structure_request (text_to_process raw max_chars)) = Raises AuthenticationError
           \<longrightarrow> fst (structure_text ev pr hist raw max_chars) = Inr (default_with ''auth_error''))
      \<and> (chat ev hist (structure_request (text_to_process raw max_chars)) = Raises RateLimitError
           \<longrightarrow> fst (structure_text ev pr hist raw max_chars) = Inr (default_with ''rate_limit_error''))
      \<and> (chat ev hist (structure_request (text_to_process raw max_chars)) = Raises APIError
           \<longrightarrow> fst (structure_text ev pr hist raw max_chars) = Inr (default_with ''api_error''))
      \<and> (chat ev hist (structure_request (text_to_process raw max_chars)) = Raises OtherException
           \<longrightarrow> fst (structure_text ev pr hist raw max_chars) = Inr (default_with ''unknown_error''))
      \<and> (chat ev hist (structure_request (text_to_process raw max_chars)) = Content None
           \<longrightarrow> fst (structure_text ev pr hist raw max_chars) = Inr (default_with ''unknown_error''))
      \<and> (\<forall>c. chat ev hist (structure_request (text_to_process raw max_chars)) = Content (Some c)
              \<and> loads ev (py_strip (py_replace ''```'' [] (py_replace ''```json'' [] c))) = None
           \<longrightarrow> fst (structure_text ev pr hist raw max_chars) = Inr (default_with ''json_error''))
      \<and> (\<forall>c e. chat ev hist (structure_request (text_to_process raw max_chars)) = Content (Some c)
              \<and> parse_reply ev c = Inl e
           \<longrightarrow> fst (structure_text ev pr hist raw max_chars) = Inr (default_with ''unknown_error'')))
   \<and> default_with tag =
       [(PStr ''summary'', PStr []),
        (PStr ''keywords'', PList []),
        (PStr ''sections'', PList []),
        (PStr ''measurements'', PList []),
        (PStr ''key_fields'', PDict []),
        (PStr ''tables'', PList []),
        (PStr ''processing_status'', PStr tag)]"
proof -
  have total: "\<exists>d. fst (structure_text ev pr hist raw max_chars) = Inr d"
    using structure_text_result [of ev pr hist raw max_chars] by auto
  have handled: "\<And>c e. parse_reply ev c = Inl e \<Longrightarrow> e = OtherException"
    by (auto simp: parse_reply_def validate_structure_def
        split: option.splits sum.splits if_splits
        dest: all_in_raises py_setitem_raises merge_partial_raises)
  have raised: "\<not> unconfigured pr \<and> raw \<noteq> [] \<and> py_strip raw \<noteq> [] \<longrightarrow>
        (chat ev hist (structure_request (text_to_process raw max_chars)) = Raises AuthenticationError
           \<longrightarrow> fst (structure_text ev pr hist raw max_chars) = Inr (default_with ''auth_error''))
      \<and> (chat ev hist (structure_request (text_to_process raw max_chars)) = Raises RateLimitError
           \<longrightarrow> fst (structure_text ev pr hist raw max_chars) = Inr (default_with ''rate_limit_error''))
      \<and> (chat ev hist (structure_request (text_to_process raw max_chars)) = Raises APIError
           \<longrightarrow> fst (structure_text ev pr hist raw max_chars) = Inr (default_with ''api_error''))
      \<and> (chat ev hist (structure_request (text_to_process raw max_chars)) = Raises OtherException
           \<longrightarrow> fst (structure_text ev pr hist raw max_chars) = Inr (default_with ''unknown_error''))
      \<and> (chat ev hist (structure_request (text_to_process raw max_chars)) = Content None
           \<longrightarrow> fst (structure_text ev pr hist raw max_chars) = Inr (default_with ''unknown_error''))"
    by (simp add: structure_text_def structure_text_try_def Let_def)
  have json: "\<not> unconfigured pr \<and> raw \<noteq> [] \<and> py_strip raw \<noteq> [] \<longrightarrow>
      (\<forall>c. chat ev hist (structure_request (text_to_process raw max_chars)) = Content (Some c)
              \<and> loads ev (py_strip (py_replace ''```'' [] (py_replace ''```json'' [] c))) = None
           \<longrightarrow> fst (structure_text ev pr hist raw max_chars) = Inr (default_with ''json_error''))"
    by (simp add: structure_text_def structure_text_try_def Let_def parse_reply_def)
  have late: "\<not> unconfigured pr \<and> raw \<noteq> [] \<and> py_strip raw \<noteq> [] \<longrightarrow>
      (\<forall>c e. chat ev hist (structure_request (text_to_process raw max_chars)) = Content (Some c)
              \<and> parse_reply ev c = Inl e
           \<longrightarrow> fst (structure_text ev pr hist raw max_chars) = Inr (default_with ''unknown_error''))"
  proof (intro impI allI)
    fix c e
    assume ok: "\<not> unconfigured pr \<and> raw \<noteq> [] \<and> py_strip raw \<noteq> []"
      and c: "chat ev hist (structure_request (text_to_process raw max_chars)) = Content (Some c)
              \<and> parse_reply ev c = Inl e"
    then have "e = OtherException"
      using handled by blast
    then show "fst (structure_text ev pr hist raw max_chars) = Inr (default_with ''unknown_error'')"
      using ok c by (simp add: structure_text_def structure_text_try_def Let_def)
  qed
  show ?thesis
    using total raised json late default_with_eq [of tag] by blast
qed

theorem structure_text_absorbs_failures_witness:
  "\<not> unconfigured configured_processor \<and> ''Invoice 4711'' \<noteq> [] \<and> py_strip ''Invoice 4711'' \<noteq> []
   \<and> chat rate_limited_env [] (structure_request (text_to_process ''Invoice 4711'' 8000))
       = Raises RateLimitError
   \<and> fst (structure_text rate_limited_env configured_processor [] ''Invoice 4711'' 8000)
       = Inr (default_with ''rate_limit_error'')"
proof -
  have cfg: "\<not> unconfigured configured_processor"
    by (simp add: unconfigured_def configured_processor_def)
  have raw: "py_strip ''Invoice 4711'' \<noteq> []"
    by (simp add: py_strip_def py_isspace_def)
  have call: "chat rate_limited_env [] (structure_request (text_to_process ''Invoice 4711'' 8000))
       = Raises RateLimitError"
    by (simp add: rate_limited_env_def)
  show ?thesis
    using cfg raw call
      structure_text_absorbs_failures
        [of rate_limited_env configured_processor "[]" "''Invoice 4711''" 8000 "''rate_limit_error''"]
    by simp
qed

section \<open>Properties of the batch\<close>

lemma skip_page_trace:
  "submitted (snd (skip_page pg b)) = submitted b"
  "calls (snd (skip_page pg b)) = calls b"
  "store (snd (skip_page pg b)) = store b"
  by (auto simp: skip_page_def Let_def split: sum.splits)




lemma process_page_skip_calls:
  "already_processed pg \<Longrightarrow> calls (snd (process_page ev pr did pg b)) = calls b"
  by (simp add: process_page_def skip_page_trace)


lemma update_document_metadata_trace:
  "submitted (update_document_metadata ev pr did sm kws b) = submitted b"
  by (auto simp: update_document_metadata_def split: prod.splits sum.splits option.splits)



lemma generate_document_summary_requests:
  "filter is_structure_request (snd (generate_document_summary ev pr hist summaries))
     = filter is_structure_request hist"
  by (auto simp: generate_document_summary_def summary_request_def
      split: list.splits call_outcome.splits option.splits)

lemma update_document_metadata_pages:
  "pages_collection (store (update_document_metadata ev pr did sm kws b)) = pages_collection (store b)"
  "filter is_structure_request (calls (update_document_metadata ev pr did sm kws b))
     = filter is_structure_request (calls b)"
proof -
  obtain r h where g: "generate_document_summary ev pr (calls b) sm = (r, h)"
    by (cases "generate_document_summary ev pr (calls b) sm")
  have h: "filter is_structure_request h = filter is_structure_request (calls b)"
    using generate_document_summary_requests [of ev pr "calls b" sm] g by simp
  show "pages_collection (store (update_document_metadata ev pr did sm kws b)) = pages_collection (store b)"
    by (auto simp: update_document_metadata_def g split: sum.splits option.splits)
  show "filter is_structure_request (calls (update_document_metadata ev pr did sm kws b))
     = filter is_structure_request (calls b)"
    using h by (auto simp: update_document_metadata_def g split: sum.splits option.splits)
qed









lemmas batch_eval =
  process_document_def process_page_def store_result_def skip_page_def count_status_def
  already_processed_def new_batch_def get_raw_text_def find_pages_def update_page_data_def
  update_fields_def update_document_metadata_def generate_document_summary_def
  unique_keywords_def set_document_metadata_def py_get_def py_eq_def Let_def

lemma structure_text_rate_limited:
  "structure_text rate_limited_env configured_processor hist ''Invoice 4711'' 8000
     = (Inr (default_with ''rate_limit_error''), hist @ [structure_request ''Invoice 4711''])"
  by (simp add: structure_text_def unconfigured_def configured_processor_def py_strip_def
      py_isspace_def structure_text_try_def rate_limited_env_def text_to_process_def)

lemma configured: "\<not> unconfigured configured_processor"
  by (simp add: unconfigured_def configured_processor_def)



section \<open>The summaries collected by a run\<close>

lemma clean_s1_reply:
  "py_strip (py_replace ''```'' [] (py_replace ''```json'' [] s1_reply)) = s1_reply"
  by (simp add: s1_reply_def py_strip_def py_isspace_def)

lemma structure_text_s1:
  "structure_text two_page_env configured_processor [] ''Invoice 4711'' 8000
     = (Inr (s1_value @ [(PStr ''processing_status'', PStr ''success'')]),
        [structure_request ''Invoice 4711''])"
proof -
  have raw: "py_strip ''Invoice 4711'' \<noteq> []"
    by (simp add: py_strip_def py_isspace_def)
  have sent: "text_to_process ''Invoice 4711'' 8000 = ''Invoice 4711''"
    by (simp add: text_to_process_def)
  have val: "validate_structure (PDict s1_value) = Inr True"
    by (simp add: validate_structure_def required_keys_def s1_value_def dict_has_def py_eq_def)
  have parse: "parse_reply two_page_env s1_reply
     = Inr (s1_value @ [(PStr ''processing_status'', PStr ''success'')])"
    unfolding parse_reply_def clean_s1_reply
    by (simp add: two_page_env_def val) (simp add: s1_value_def py_eq_def)
  have "structure_text_try two_page_env [] ''Invoice 4711''
     = Inr (s1_value @ [(PStr ''processing_status'', PStr ''success'')])"
    using parse by (simp add: structure_text_try_def two_page_env_def structure_request_def)
  then show ?thesis
    using configured raw by (simp add: structure_text_def sent)
qed

lemma structure_text_page_2:
  "structure_text two_page_env configured_processor [structure_request ''Invoice 4711'']
       ''Terms of payment'' 8000
     = (Inr (default_with ''rate_limit_error''),
        [structure_request ''Invoice 4711'', structure_request ''Terms of payment''])"
proof -
  have raw: "py_strip ''Terms of payment'' \<noteq> []"
    by (simp add: py_strip_def py_isspace_def)
  have sent: "text_to_process ''Terms of payment'' 8000 = ''Terms of payment''"
    by (simp add: text_to_process_def)
  have "structure_text_try two_page_env [structure_request ''Invoice 4711''] ''Terms of payment''
     = Inl RateLimitError"
    by (simp add: structure_text_try_def two_page_env_def structure_request_def)
  then show ?thesis
    using configured raw by (simp add: structure_text_def sent)
qed

lemma summary_request_two_pages:
  "summary_request two_page_env [PStr ''S1'', PStr []]
     = Request SummaryPrompt
         (''Here are the summaries of the document pages:'' @ [nl, nl]
          @ ''Page 1: S1'' @ [nl, nl] @ ''Page 2: '')"
  by (simp add: summary_request_def summary_context_def py_format_def str_of_nat.simps
      digit_char_def Let_def)

lemma process_document_two_pages:
  "process_document two_page_env configured_processor two_page_db [] ''doc''
     = (None,
        \<lparr>store = two_page_db
           \<lparr>pages_collection := Some
              [(raw_page 1 ''Invoice 4711'')
                 \<lparr>status := ''structured'', page_summary := PStr ''S1'',
                   page_keywords := PList [PStr ''invoice''],
                   structured_data := PDict (s1_value @ [(PStr ''processing_status'', PStr ''success'')])\<rparr>,
               (raw_page 2 ''Terms of payment'')
                 \<lparr>status := ''structured'', page_summary := PStr [],
                   page_keywords := PList [],
                   structured_data := PDict (default_with ''rate_limit_error'')\<rparr>],
            documents_collection := Some
              [raw_document\<lparr>document_summary := PStr ''Overall summary'',
                 document_keywords := [PStr ''invoice''], document_status := ''structured''\<rparr>]\<rparr>,
         calls = [structure_request ''Invoice 4711'', structure_request ''Terms of payment'',
                  summary_request two_page_env [PStr ''S1'', PStr []]],
         all_summaries = [PStr ''S1'', PStr []],
         all_keywords = [PStr ''invoice''],
         processed_count = 2, failed_count = 0,
         submitted = [raw_page 1 ''Invoice 4711'', raw_page 2 ''Terms of payment'']\<rparr>)"
proof -
  have pages: "get_raw_text two_page_db ''doc''
      = [raw_page 1 ''Invoice 4711'', raw_page 2 ''Terms of payment'']"
    by (simp add: get_raw_text_def find_pages_def two_page_db_def raw_page_def)
  have answer: "\<And>h t. chat two_page_env h (Request SummaryPrompt t) = Content (Some ''Overall summary'')"
    by (simp add: two_page_env_def)
  have client: "client configured_processor"
    by (simp add: configured_processor_def)
  show ?thesis
    unfolding process_document_def pages
    by (simp add: configured client answer structure_text_s1 structure_text_page_2
        process_page_def store_result_def skip_page_def count_status_def already_processed_def
        new_batch_def update_page_data_def update_fields_def update_document_metadata_def
        generate_document_summary_def unique_keywords_def set_document_metadata_def
        summary_request_def py_get_def py_eq_def Let_def
        two_page_db_def raw_page_def raw_document_def s1_value_def default_with_eq
        py_strip_def py_isspace_def)
qed


lemma process_document_retry_state:
  "all_summaries (snd (process_document rate_limited_env configured_processor retry_db [] ''doc''))
     = [PStr []]"
  "documents_collection
     (store (snd (process_document rate_limited_env configured_processor retry_db [] ''doc'')))
     = Some [raw_document\<lparr>document_summary := PStr [], document_keywords := [],
               document_status := ''structured''\<rparr>]"
  by (simp_all add: batch_eval retry_db_def raw_page_def raw_document_def
      structure_text_rate_limited default_with_eq configured)

text \<open>
  C3. The summaries of the pages that are skipped are collected only when they are not
  empty, but the summary of a page that has just been processed is collected whatever it
  is. For a document whose first page yields the summary \<open>S1\<close> and whose second page
  fails with an empty summary, the document summary is therefore requested for both
  pages, with an empty second entry, where \<open>[S1]\<close> alone would have given \<open>S1\<close> without
  a request. For a single page that fails, the metadata is built from one empty summary
  and the document is marked structured.
\<close>

theorem process_document_collects_empty_summary:
  "all_summaries (snd (process_document two_page_env configured_processor two_page_db [] ''doc''))
     = [PStr ''S1'', PStr []]
   \<and> calls (snd (process_document two_page_env configured_processor two_page_db [] ''doc''))
     = [structure_request ''Invoice 4711'', structure_request ''Terms of payment'',
        Request SummaryPrompt
          (''Here are the summaries of the document pages:'' @ [nl, nl]
           @ ''Page 1: S1'' @ [nl, nl] @ ''Page 2: '')]
   \<and> documents_collection
       (store (snd (process_document two_page_env configured_processor two_page_db [] ''doc'')))
     = Some [raw_document\<lparr>document_summary := PStr ''Overall summary'',
               document_keywords := [PStr ''invoice''], document_status := ''structured''\<rparr>]
   \<and> generate_document_summary two_page_env configured_processor [] [PStr ''S1'']
     = (Inr (PStr ''S1''), [])
   \<and> all_summaries (snd (process_document rate_limited_env configured_processor retry_db [] ''doc''))
     = [PStr []]
   \<and> documents_collection
       (store (snd (process_document rate_limited_env configured_processor retry_db [] ''doc'')))
     = Some [raw_document\<lparr>document_summary := PStr [], document_keywords := [],
               document_status := ''structured''\<rparr>]"
  unfolding process_document_two_pages
  by (simp add: summary_request_two_pages process_document_retry_state
      generate_document_summary_def two_page_db_def)

section \<open>Properties of the document summary\<close>

lemma fallback_summary_str:
  "fallback_summary (PStr a # rest)
     = Inr (PStr (''Document with '' @ str_of_nat (Suc (length rest)) @ '' pages. '' @ a))"
  by (simp add: fallback_summary_def)

lemma clean_no_summary_reply:
  "py_strip (py_replace ''```'' [] (py_replace ''```json'' [] no_summary_reply)) = no_summary_reply"
  by (simp add: no_summary_reply_def py_strip_def py_isspace_def)

lemma parse_no_summary_reply:
  "parse_reply no_summary_env no_summary_reply
     = Inr (no_summary_value @ [(PStr ''processing_status'', PStr ''success'')])"
proof -
  have val: "validate_structure (PDict no_summary_value) = Inr True"
    by (simp add: validate_structure_def required_keys_def no_summary_value_def dict_has_def py_eq_def)
  show ?thesis
    unfolding parse_reply_def clean_no_summary_reply
    by (simp add: no_summary_env_def val) (simp add: no_summary_value_def py_eq_def)
qed

lemma structure_text_no_summary:
  assumes "py_strip raw \<noteq> []" and "length raw \<le> 8000"
  shows "structure_text no_summary_env configured_processor hist raw 8000
     = (Inr (no_summary_value @ [(PStr ''processing_status'', PStr ''success'')]),
        hist @ [structure_request raw])"
proof -
  have raw: "raw \<noteq> []"
    using assms(1) by (auto simp: py_strip_def)
  have sent: "text_to_process raw 8000 = raw"
    using assms(2) by (simp add: text_to_process_def)
  have "structure_text_try no_summary_env hist raw
     = Inr (no_summary_value @ [(PStr ''processing_status'', PStr ''success'')])"
    using parse_no_summary_reply
    by (simp add: structure_text_try_def no_summary_env_def structure_request_def)
  then show ?thesis
    using configured raw assms(1) by (simp add: structure_text_def sent)
qed

lemma process_document_no_summary:
  "process_document no_summary_env configured_processor two_page_db [] ''doc''
     = (None,
        \<lparr>store = two_page_db
           \<lparr>pages_collection := Some
              [(raw_page 1 ''Invoice 4711'')
                 \<lparr>status := ''structured'',
                   structured_data := PDict (no_summary_value @ [(PStr ''processing_status'', PStr ''success'')])\<rparr>,
               (raw_page 2 ''Terms of payment'')
                 \<lparr>status := ''structured'',
                   structured_data := PDict (no_summary_value @ [(PStr ''processing_status'', PStr ''success'')])\<rparr>]\<rparr>,
         calls = [structure_request ''Invoice 4711'', structure_request ''Terms of payment'',
                  summary_request no_summary_env [PNone, PNone]],
         all_summaries = [PNone, PNone],
         all_keywords = [],
         processed_count = 2, failed_count = 0,
         submitted = [raw_page 1 ''Invoice 4711'', raw_page 2 ''Terms of payment'']\<rparr>)"
proof -
  have pages: "get_raw_text two_page_db ''doc''
      = [raw_page 1 ''Invoice 4711'', raw_page 2 ''Terms of payment'']"
    by (simp add: get_raw_text_def find_pages_def two_page_db_def raw_page_def)
  have refused: "\<And>h t. chat no_summary_env h (Request SummaryPrompt t) = Raises APIError"
    by (simp add: no_summary_env_def)
  have client: "client configured_processor"
    by (simp add: configured_processor_def)
  have p1: "\<And>h. structure_text no_summary_env configured_processor h ''Invoice 4711'' 8000
     = (Inr (no_summary_value @ [(PStr ''processing_status'', PStr ''success'')]),
        h @ [structure_request ''Invoice 4711''])"
    by (rule structure_text_no_summary) (simp_all add: py_strip_def py_isspace_def)
  have p2: "\<And>h. structure_text no_summary_env configured_processor h ''Terms of payment'' 8000
     = (Inr (no_summary_value @ [(PStr ''processing_status'', PStr ''success'')]),
        h @ [structure_request ''Terms of payment''])"
    by (rule structure_text_no_summary) (simp_all add: py_strip_def py_isspace_def)
  show ?thesis
    unfolding process_document_def pages
    by (simp add: configured client refused p1 p2
        process_page_def store_result_def skip_page_def count_status_def already_processed_def
        new_batch_def update_page_data_def update_fields_def update_document_metadata_def
        generate_document_summary_def fallback_summary_def summary_request_def
        py_get_def py_eq_def Let_def
        two_page_db_def raw_page_def raw_document_def no_summary_value_def)
qed

text \<open>
  C8, as stated: when the call fails the fallback is returned and no error leaves
  \<^verbatim>\<open>generate_document_summary\<close>. The first summary need not be a string: a reply
  that has the six keys, with \<^verbatim>\<open>null\<close> for the summary, is stored as it came, and
  \<^verbatim>\<open>process_document\<close> collects \<^verbatim>\<open>None\<close> for the page. With two such pages and a
  summary call that fails, the fallback adds \<^verbatim>\<open>None\<close> to a string: the exception leaves
  \<^verbatim>\<open>generate_document_summary\<close>, and \<^verbatim>\<open>_update_document_metadata\<close> logs it and
  leaves the document as it was.
\<close>

theorem generate_document_summary_fallback_raises:
  "all_summaries (snd (process_document no_summary_env configured_processor two_page_db [] ''doc''))
     = [PNone, PNone]
   \<and> client configured_processor
   \<and> chat no_summary_env [structure_request ''Invoice 4711'', structure_request ''Terms of payment'']
       (summary_request no_summary_env [PNone, PNone]) = Raises APIError
   \<and> generate_document_summary no_summary_env configured_processor
       [structure_request ''Invoice 4711'', structure_request ''Terms of payment''] [PNone, PNone]
     = (Inl OtherException,
        [structure_request ''Invoice 4711'', structure_request ''Terms of payment'',
         summary_request no_summary_env [PNone, PNone]])
   \<and> documents_collection
       (store (snd (process_document no_summary_env configured_processor two_page_db [] ''doc'')))
     = Some [raw_document]"
  unfolding process_document_no_summary
  by (simp add: generate_document_summary_def fallback_summary_def summary_request_def
      no_summary_env_def configured_processor_def two_page_db_def)

text \<open>
  C8, amended. No summaries give the empty string and one summary gives that summary, both
  without a request. With several summaries a reply is returned stripped. When the call
  raises (or answers without content, or cannot be made for want of a client), a first
  summary that is a string gives \<open>Document with N pages. \<close> followed by it, and a first
  summary that is not a string makes the fallback itself raise.
\<close>

theorem generate_document_summary_cases:
  "generate_document_summary ev pr hist [] = (Inr (PStr []), hist)
   \<and> generate_document_summary ev pr hist [s] = (Inr s, hist)
   \<and> (client pr \<and> chat ev hist (summary_request ev (s1 # s2 # rest)) = Content (Some c)
        \<longrightarrow> generate_document_summary ev pr hist (s1 # s2 # rest)
            = (Inr (PStr (py_strip c)), hist @ [summary_request ev (s1 # s2 # rest)]))
   \<and> (client pr \<and> (chat ev hist (summary_request ev (PStr a # s2 # rest)) = Raises e
                    \<or> chat ev hist (summary_request ev (PStr a # s2 # rest)) = Content None)
        \<longrightarrow> generate_document_summary ev pr hist (PStr a # s2 # rest)
            = (Inr (PStr (''Document with '' @ str_of_nat (length (PStr a # s2 # rest)) @ '' pages. '' @ a)),
               hist @ [summary_request ev (PStr a # s2 # rest)]))
   \<and> (\<not> client pr
        \<longrightarrow> generate_document_summary ev pr hist (PStr a # s2 # rest)
            = (Inr (PStr (''Document with '' @ str_of_nat (length (PStr a # s2 # rest)) @ '' pages. '' @ a)),
               hist))
   \<and> (\<not> is_str s1
       \<and> (\<not> client pr
           \<or> chat ev hist (summary_request ev (s1 # s2 # rest)) = Raises e
           \<or> chat ev hist (summary_request ev (s1 # s2 # rest)) = Content None)
        \<longrightarrow> fst (generate_document_summary ev pr hist (s1 # s2 # rest)) = Inl OtherException)"
proof -
  have none: "generate_document_summary ev pr hist [] = (Inr (PStr []), hist)"
    by (simp add: generate_document_summary_def)
  have single: "generate_document_summary ev pr hist [s] = (Inr s, hist)"
    by (simp add: generate_document_summary_def)
  have answered: "client pr \<and> chat ev hist (summary_request ev (s1 # s2 # rest)) = Content (Some c)
        \<longrightarrow> generate_document_summary ev pr hist (s1 # s2 # rest)
            = (Inr (PStr (py_strip c)), hist @ [summary_request ev (s1 # s2 # rest)])"
    by (simp add: generate_document_summary_def)
  have failed: "client pr \<and> (chat ev hist (summary_request ev (PStr a # s2 # rest)) = Raises e
                    \<or> chat ev hist (summary_request ev (PStr a # s2 # rest)) = Content None)
        \<longrightarrow> generate_document_summary ev pr hist (PStr a # s2 # rest)
            = (Inr (PStr (''Document with '' @ str_of_nat (length (PStr a # s2 # rest)) @ '' pages. '' @ a)),
               hist @ [summary_request ev (PStr a # s2 # rest)])"
    by (auto simp: generate_document_summary_def fallback_summary_str)
  have no_client: "\<not> client pr
        \<longrightarrow> generate_document_summary ev pr hist (PStr a # s2 # rest)
            = (Inr (PStr (''Document with '' @ str_of_nat (length (PStr a # s2 # rest)) @ '' pages. '' @ a)),
               hist)"
    by (simp add: generate_document_summary_def fallback_summary_str)
  have fb: "\<not> is_str s1 \<Longrightarrow> fallback_summary (s1 # s2 # rest) = Inl OtherException"
    by (cases s1) (simp_all add: fallback_summary_def)
  have raises: "\<not> is_str s1
       \<and> (\<not> client pr
           \<or> chat ev hist (summary_request ev (s1 # s2 # rest)) = Raises e
           \<or> chat ev hist (summary_request ev (s1 # s2 # rest)) = Content None)
        \<longrightarrow> fst (generate_document_summary ev pr hist (s1 # s2 # rest)) = Inl OtherException"
    by (auto simp: generate_document_summary_def fb)
  from none single answered failed no_client raises show ?thesis
    by (intro conjI)
qed

theorem generate_document_summary_cases_witness:
  "client \<lparr>api_key = Some ''sk'', client = True\<rparr>
   \<and> chat \<lparr>chat = (\<lambda>h r. Raises RateLimitError), loads = (\<lambda>s. None), py_repr = (\<lambda>v. [])\<rparr> []
        (summary_request \<lparr>chat = (\<lambda>h r. Raises RateLimitError), loads = (\<lambda>s. None), py_repr = (\<lambda>v. [])\<rparr>
           [PStr ''S1'', PStr ''S2'']) = Raises RateLimitError
   \<and> fst (generate_document_summary
        \<lparr>chat = (\<lambda>h r. Raises RateLimitError), loads = (\<lambda>s. None), py_repr = (\<lambda>v. [])\<rparr>
        \<lparr>api_key = Some ''sk'', client = True\<rparr> [] [PStr ''S1'', PStr ''S2''])
       = Inr (PStr ''Document with 2 pages. S1'')
   \<and> \<not> is_str PNone
   \<and> fst (generate_document_summary
        \<lparr>chat = (\<lambda>h r. Raises RateLimitError), loads = (\<lambda>s. None), py_repr = (\<lambda>v. [])\<rparr>
        \<lparr>api_key = Some ''sk'', client = True\<rparr> [] [PNone, PStr ''S2''])
       = Inl OtherException"
  using generate_document_summary_cases
    [where ev = "\<lparr>chat = (\<lambda>h r. Raises RateLimitError), loads = (\<lambda>s. None), py_repr = (\<lambda>v. [])\<rparr>"
       and pr = "\<lparr>api_key = Some ''sk'', client = True\<rparr>" and hist = "[]"
       and a = "''S1''" and ?s1.0 = PNone and ?s2.0 = "PStr ''S2''" and rest = "[]"
       and e = RateLimitError]
  by (simp add: str_of_nat.simps digit_char_def)

section \<open>Properties of a run without a key\<close>

text \<open>The write of the branch without a key, as a function on pages.\<close>

lemma update_fields_mark:
  "unprocessed_mark (update_fields (PDict get_default_structure) (PStr no_key_summary) (PList []) p)"
  "doc_id (update_fields sd ps kw p) = doc_id p"
  "page_num (update_fields sd ps kw p) = page_num p"
  by (simp_all add: unprocessed_mark_def update_fields_def)

lemma update_one_cases:
  "update_one P f xs = Some ys \<Longrightarrow>
   \<exists>before x after. xs = before @ x # after \<and> P x \<and> ys = before @ f x # after"
proof (induction xs arbitrary: ys)
  case Nil
  then show ?case by simp
next
  case (Cons a xs)
  show ?case
  proof (cases "P a")
    case True
    then have "ys = f a # xs"
      using Cons.prems by simp
    then show ?thesis
      using True by (intro exI [of _ "[]"] exI [of _ a] exI [of _ xs]) simp
  next
    case False
    then obtain zs where zs: "update_one P f xs = Some zs" and ys: "ys = a # zs"
      using Cons.prems by (auto split: option.splits)
    from Cons.IH [OF zs] obtain before x after
      where "xs = before @ x # after \<and> P x \<and> zs = before @ f x # after"
      by (elim exE)
    then show ?thesis
      using ys by (intro exI [of _ "a # before"] exI [of _ x] exI [of _ after]) simp
  qed
qed

lemma update_one_unique:
  assumes "distinct (map page_num (filter (\<lambda>p. doc_id p = did) xs))"
    and "\<exists>p\<in>set xs. doc_id p = did \<and> page_num p = n"
  shows "update_one (\<lambda>p. doc_id p = did \<and> page_num p = n) f xs
    = Some (map (\<lambda>p. if doc_id p = did \<and> page_num p = n then f p else p) xs)"
  using assms
proof (induction xs)
  case Nil
  then show ?case by simp
next
  case (Cons a xs)
  show ?case
  proof (cases "doc_id a = did \<and> page_num a = n")
    case True
    then have "\<forall>p\<in>set xs. \<not> (doc_id p = did \<and> page_num p = n)"
      using Cons.prems(1) by (auto simp: image_iff)
    then have m: "map (\<lambda>p. if doc_id p = did \<and> page_num p = n then f p else p) xs = xs"
      by (intro map_idI) auto
    have u: "update_one (\<lambda>p. doc_id p = did \<and> page_num p = n) f (a # xs) = Some (f a # xs)"
      using True by simp
    have r: "map (\<lambda>p. if doc_id p = did \<and> page_num p = n then f p else p) (a # xs) = f a # xs"
      using True by (simp only: list.map m) simp
    show ?thesis
      by (simp only: u r)
  next
    case False
    have d: "distinct (map page_num (filter (\<lambda>p. doc_id p = did) xs))"
      using Cons.prems(1) by (simp split: if_splits)
    have e: "\<exists>p\<in>set xs. doc_id p = did \<and> page_num p = n"
      using Cons.prems(2) False by auto
    have u: "update_one (\<lambda>p. doc_id p = did \<and> page_num p = n) f (a # xs)
        = Some (a # map (\<lambda>p. if doc_id p = did \<and> page_num p = n then f p else p) xs)"
      using False Cons.IH [OF d e] by auto
    have r: "map (\<lambda>p. if doc_id p = did \<and> page_num p = n then f p else p) (a # xs)
        = a # map (\<lambda>p. if doc_id p = did \<and> page_num p = n then f p else p) xs"
      using False by auto
    show ?thesis
      by (simp only: u r)
  qed
qed


lemma mark_page_props:
  "unprocessed_mark (mark_page p)"
  "doc_id (mark_page p) = doc_id p"
  "page_num (mark_page p) = page_num p"
  "mark_page (mark_page p) = mark_page p"
  by (simp_all add: mark_page_def unprocessed_mark_def update_fields_def)

lemma mark_step:
  assumes "pages_collection d = Some xs"
    and "\<not> write_error d did n"
    and "distinct (map page_num (filter (\<lambda>p. doc_id p = did) xs))"
    and "\<exists>p\<in>set xs. doc_id p = did \<and> page_num p = n"
  shows "snd (update_page_data d did n (PDict get_default_structure) (PStr no_key_summary) (PList []))
    = d\<lparr>pages_collection :=
          Some (map (\<lambda>p. if doc_id p = did \<and> page_num p = n then mark_page p else p) xs)\<rparr>"
  using assms(1,2) update_one_unique [OF assms(3,4), of mark_page]
  by (simp add: update_page_data_def mark_page_def)

lemma marked_keys:
  "map page_num (filter (\<lambda>p. doc_id p = did)
      (map (\<lambda>p. if doc_id p = did \<and> page_num p \<in> S then mark_page p else p) xs))
   = map page_num (filter (\<lambda>p. doc_id p = did) xs)"
  by (induction xs) (simp_all add: mark_page_props)

lemma marked_again:
  "map (\<lambda>p. if doc_id p = did \<and> page_num p = n then mark_page p else p)
     (map (\<lambda>p. if doc_id p = did \<and> page_num p \<in> S then mark_page p else p) xs)
   = map (\<lambda>p. if doc_id p = did \<and> page_num p \<in> insert n S then mark_page p else p) xs"
  by (induction xs) (auto simp: mark_page_props)

text \<open>With distinct page numbers and working writes, the loop marks the pages it visits.\<close>

lemma mark_unprocessed_marks:
  assumes "distinct (map page_num (filter (\<lambda>p. doc_id p = did) xs))"
    and "\<forall>pg\<in>set pgs. \<exists>p\<in>set xs. doc_id p = did \<and> page_num p = page_num pg"
    and "\<forall>n. \<not> write_error d did n"
    and "pages_collection d
         = Some (map (\<lambda>p. if doc_id p = did \<and> page_num p \<in> S then mark_page p else p) xs)"
  shows "mark_unprocessed d did pgs
    = d\<lparr>pages_collection :=
          Some (map (\<lambda>p. if doc_id p = did \<and> page_num p \<in> S \<union> page_num ` set pgs
                         then mark_page p else p) xs)\<rparr>"
  using assms
proof (induction pgs arbitrary: d S)
  case Nil
  then show ?case by (simp add: mark_unprocessed_def)
next
  case (Cons pg pgs)
  let ?ys = "map (\<lambda>p. if doc_id p = did \<and> page_num p \<in> S then mark_page p else p) xs"
  let ?d' = "d\<lparr>pages_collection :=
          Some (map (\<lambda>p. if doc_id p = did \<and> page_num p \<in> insert (page_num pg) S
                         then mark_page p else p) xs)\<rparr>"
  have keys: "distinct (map page_num (filter (\<lambda>p. doc_id p = did) ?ys))"
    using Cons.prems(1) by (simp only: marked_keys)
  from Cons.prems(2) obtain p where p: "p \<in> set xs" "doc_id p = did" "page_num p = page_num pg"
    by auto
  then have "(if doc_id p = did \<and> page_num p \<in> S then mark_page p else p) \<in> set ?ys"
    by (intro imageI [of p "set xs", folded set_map])
  then have found: "\<exists>q\<in>set ?ys. doc_id q = did \<and> page_num q = page_num pg"
    using p by (intro bexI [of _ "if doc_id p = did \<and> page_num p \<in> S then mark_page p else p"])
      (simp_all add: mark_page_props)
  have step: "snd (update_page_data d did (page_num pg) (PDict get_default_structure)
        (PStr no_key_summary) (PList [])) = ?d'"
    using mark_step [OF Cons.prems(4) _ keys found] Cons.prems(3)
    by (simp only: marked_again) simp
  have rest: "mark_unprocessed ?d' did pgs
    = ?d'\<lparr>pages_collection :=
          Some (map (\<lambda>p. if doc_id p = did \<and> page_num p \<in> insert (page_num pg) S \<union> page_num ` set pgs
                         then mark_page p else p) xs)\<rparr>"
    using Cons.prems(1,2,3) by (intro Cons.IH) simp_all
  have "mark_unprocessed d did (pg # pgs) = mark_unprocessed ?d' did pgs"
    using step by (simp add: mark_unprocessed_def)
  then show ?case
    using rest by simp
qed


text \<open>A run without a key marks every page of the document.\<close>

lemma process_document_no_key:
  assumes "unconfigured pr"
    and "pages_collection d = Some xs"
    and "\<not> read_error d"
    and "\<forall>n. \<not> write_error d did n"
    and "distinct (map page_num (filter (\<lambda>p. doc_id p = did) xs))"
  shows "process_document ev pr d hist did
    = (None, new_batch
        (d\<lparr>pages_collection := Some (map (\<lambda>p. if doc_id p = did then mark_page p else p) xs)\<rparr>)
        hist)"
proof -
  have pgs: "get_raw_text d did = sort_key page_num (filter (\<lambda>p. doc_id p = did) xs)"
    using assms(2,3) by (simp add: get_raw_text_def find_pages_def)
  have start: "pages_collection d
      = Some (map (\<lambda>p. if doc_id p = did \<and> page_num p \<in> {} then mark_page p else p) xs)"
    using assms(2) by simp
  have found: "\<forall>pg\<in>set (get_raw_text d did). \<exists>p\<in>set xs. doc_id p = did \<and> page_num p = page_num pg"
    unfolding pgs by auto
  have all: "map (\<lambda>p. if doc_id p = did \<and> page_num p \<in> {} \<union> page_num ` set (get_raw_text d did)
                      then mark_page p else p) xs
      = map (\<lambda>p. if doc_id p = did then mark_page p else p) xs"
    unfolding pgs by (intro map_cong) auto
  have "mark_unprocessed d did (get_raw_text d did)
      = d\<lparr>pages_collection := Some (map (\<lambda>p. if doc_id p = did then mark_page p else p) xs)\<rparr>"
    using mark_unprocessed_marks [OF assms(5) found assms(4) start] by (simp only: all)
  then show ?thesis
    using assms(1) by (simp add: process_document_def)
qed

lemma all_marked_pages:
  "all_marked d did \<Longrightarrow> p \<in> set (get_raw_text d did) \<Longrightarrow> unprocessed_mark p"
  by (auto simp: all_marked_def get_raw_text_def find_pages_def list_all_iff
      split: option.splits if_splits)

lemma all_marked_update:
  assumes "all_marked d did"
  shows "all_marked (snd (update_page_data d did n
      (PDict get_default_structure) (PStr no_key_summary) (PList []))) did"
proof (cases "pages_collection d")
  case None
  then show ?thesis
    using assms by (simp add: update_page_data_def)
next
  case (Some xs)
  show ?thesis
  proof (cases "update_one (\<lambda>p. doc_id p = did \<and> page_num p = n) mark_page xs")
    case None
    then show ?thesis
      using assms Some by (simp add: update_page_data_def mark_page_def)
  next
    case (Some ys)
    from update_one_cases [OF Some] obtain before x after
      where "xs = before @ x # after \<and> (doc_id x = did \<and> page_num x = n)
          \<and> ys = before @ mark_page x # after"
      by (elim exE)
    then have "list_all (\<lambda>p. doc_id p = did \<longrightarrow> unprocessed_mark p) ys"
      using assms \<open>pages_collection d = Some xs\<close>
      by (simp add: all_marked_def mark_page_props)
    then show ?thesis
      using assms Some \<open>pages_collection d = Some xs\<close>
      by (simp add: update_page_data_def mark_page_def all_marked_def)
  qed
qed

lemma all_marked_mark_unprocessed:
  "all_marked d did \<Longrightarrow> all_marked (mark_unprocessed d did pgs) did"
proof (induction pgs arbitrary: d)
  case Nil
  then show ?case by (simp add: mark_unprocessed_def)
next
  case (Cons pg pgs)
  have "mark_unprocessed d did (pg # pgs)
      = mark_unprocessed (snd (update_page_data d did (page_num pg)
          (PDict get_default_structure) (PStr no_key_summary) (PList []))) did pgs"
    by (simp add: mark_unprocessed_def)
  then show ?case
    using Cons.IH [OF all_marked_update [OF Cons.prems]] by simp
qed

lemma no_key_summary_nonempty: "no_key_summary \<noteq> []"
  by (simp add: no_key_summary_def)

lemma skip_marked_page:
  "unprocessed_mark pg \<Longrightarrow>
   process_page ev pr did pg b
     = (None, b\<lparr>all_summaries := all_summaries b @ [page_summary pg],
                 processed_count := Suc (processed_count b)\<rparr>)"
  by (simp add: unprocessed_mark_def process_page_def already_processed_def skip_page_def
      no_key_summary_nonempty)

lemma process_pages_marked:
  "\<forall>p\<in>set pgs. unprocessed_mark p \<Longrightarrow>
   fst (process_pages ev pr did pgs b) = None
   \<and> store (snd (process_pages ev pr did pgs b)) = store b
   \<and> calls (snd (process_pages ev pr did pgs b)) = calls b
   \<and> submitted (snd (process_pages ev pr did pgs b)) = submitted b"
proof (induction pgs arbitrary: b)
  case Nil
  then show ?case by simp
next
  case (Cons pg pgs)
  then have pg: "unprocessed_mark pg" and rest: "\<forall>p\<in>set pgs. unprocessed_mark p"
    by simp_all
  show ?case
    using Cons.IH [OF rest] by (simp add: skip_marked_page [OF pg])
qed

text \<open>
  Once every page carries the marks, a run changes no page, submits no page and makes no
  structuring request, with or without a key.
\<close>

lemma process_document_marked:
  assumes "all_marked d did"
  shows "fst (process_document ev pr d hist did) = None
    \<and> submitted (snd (process_document ev pr d hist did)) = []
    \<and> filter is_structure_request (calls (snd (process_document ev pr d hist did)))
        = filter is_structure_request hist
    \<and> all_marked (store (snd (process_document ev pr d hist did))) did"
proof (cases "unconfigured pr \<or> get_raw_text d did = []")
  case True
  then show ?thesis
    using assms all_marked_mark_unprocessed [OF assms, of "get_raw_text d did"]
    by (auto simp: process_document_def new_batch_def)
next
  case False
  have marked: "\<forall>p\<in>set (get_raw_text d did). unprocessed_mark p"
    using all_marked_pages [OF assms] by blast
  obtain r b where run: "process_pages ev pr did (get_raw_text d did) (new_batch d hist) = (r, b)"
    by (cases "process_pages ev pr did (get_raw_text d did) (new_batch d hist)")
  from process_pages_marked [OF marked, of ev pr did "new_batch d hist"] run
  have r: "r = None" and b: "store b = d" "calls b = hist" "submitted b = []"
    by (simp_all add: new_batch_def)
  have kept: "all_marked (store (update_document_metadata ev pr did (all_summaries b) (all_keywords b) b)) did"
    using assms b(1)
    by (simp add: all_marked_def
        update_document_metadata_pages(1) [of ev pr did "all_summaries b" "all_keywords b" b])
  show ?thesis
    using False run r b assms kept
    by (simp add: process_document_def Let_def update_document_metadata_trace
        update_document_metadata_pages(2))
qed

lemma repeat_document_marked:
  "all_marked d did \<Longrightarrow> r \<in> set (repeat_document runs d hist did) \<Longrightarrow>
   fst r = None \<and> submitted (snd r) = []
   \<and> filter is_structure_request (calls (snd r)) = filter is_structure_request hist"
proof (induction runs arbitrary: d hist)
  case Nil
  then show ?case by simp
next
  case (Cons run runs)
  let ?r = "process_document (fst run) (snd run) d hist did"
  note first = process_document_marked [OF Cons.prems(1), of "fst run" "snd run" hist]
  from Cons.prems(2) consider "r = ?r" | "r \<in> set (repeat_document runs (store (snd ?r)) (calls (snd ?r)) did)"
    by (auto simp: Let_def)
  then show ?case
  proof cases
    case 1
    then show ?thesis using first by simp
  next
    case 2
    have "all_marked (store (snd ?r)) did"
      using first by simp
    from Cons.IH [OF this 2] show ?thesis
      using first by simp
  qed
qed


text \<open>
  C10. Let a run of \<^verbatim>\<open>process_document\<close> have no key, on a database whose reads and
  writes work and in which the pages of the document have distinct page numbers. The run
  makes no request and leaves every page of the document with status \<open>structured\<close>, the
  default structure, whose \<open>processing_status\<close> is \<open>failed\<close>, and the non-empty summary
  \<open>[No API key - processing skipped]\<close>. In any series of later runs on the document, with
  or without a key and whatever the service answers, no run ends with an exception,
  submits a page or makes a structuring request.
\<close>

theorem process_document_no_key_locks_pages:
  assumes "unconfigured pr"
    and "pages_collection d = Some xs"
    and "\<not> read_error d"
    and "\<forall>n. \<not> write_error d did n"
    and "distinct (map page_num (filter (\<lambda>p. doc_id p = did) xs))"
  shows "(\<forall>p\<in>set (get_raw_text (store (snd (process_document ev pr d hist did))) did).
            status p = ''structured''
            \<and> structured_data p = PDict get_default_structure
            \<and> page_summary p = PStr ''[No API key - processing skipped]''
            \<and> truthy (page_summary p))
     \<and> page_num ` set (get_raw_text (store (snd (process_document ev pr d hist did))) did)
         = page_num ` set (get_raw_text d did)
     \<and> py_get get_default_structure ''processing_status'' PNone = PStr ''failed''
     \<and> calls (snd (process_document ev pr d hist did)) = hist
     \<and> (\<forall>runs hist' r.
           r \<in> set (repeat_document runs (store (snd (process_document ev pr d hist did))) hist' did)
           \<longrightarrow> fst r = None \<and> submitted (snd r) = []
               \<and> filter is_structure_request (calls (snd r)) = filter is_structure_request hist')"
proof -
  let ?after = "d\<lparr>pages_collection := Some (map (\<lambda>p. if doc_id p = did then mark_page p else p) xs)\<rparr>"
  have run: "process_document ev pr d hist did = (None, new_batch ?after hist)"
    using assms by (rule process_document_no_key)
  have st: "store (snd (process_document ev pr d hist did)) = ?after"
    and cl: "calls (snd (process_document ev pr d hist did)) = hist"
    by (simp_all add: run new_batch_def)
  have "list_all (\<lambda>p. doc_id p = did \<longrightarrow> unprocessed_mark p)
      (map (\<lambda>p. if doc_id p = did then mark_page p else p) xs)"
    by (induction xs) (simp_all add: mark_page_props)
  then have marked: "all_marked ?after did"
    by (simp add: all_marked_def)
  have fields: "\<forall>p\<in>set (get_raw_text ?after did).
            status p = ''structured''
            \<and> structured_data p = PDict get_default_structure
            \<and> page_summary p = PStr ''[No API key - processing skipped]''
            \<and> truthy (page_summary p)"
  proof
    fix p
    assume "p \<in> set (get_raw_text ?after did)"
    then have "unprocessed_mark p"
      using all_marked_pages [OF marked] by simp
    then show "status p = ''structured''
            \<and> structured_data p = PDict get_default_structure
            \<and> page_summary p = PStr ''[No API key - processing skipped]''
            \<and> truthy (page_summary p)"
      by (simp add: unprocessed_mark_def no_key_summary_def)
  qed
  have "set (get_raw_text ?after did) = mark_page ` set (get_raw_text d did)"
    using assms(2,3) by (auto simp: get_raw_text_def find_pages_def mark_page_props image_iff)
  then have same: "page_num ` set (get_raw_text ?after did) = page_num ` set (get_raw_text d did)"
    by (simp add: image_image mark_page_props)
  have tag: "py_get get_default_structure ''processing_status'' PNone = PStr ''failed''"
    by (simp add: py_get_def get_default_structure_def py_eq_def)
  have later: "\<forall>runs hist' r.
           r \<in> set (repeat_document runs ?after hist' did)
           \<longrightarrow> fst r = None \<and> submitted (snd r) = []
               \<and> filter is_structure_request (calls (snd r)) = filter is_structure_request hist'"
    using repeat_document_marked [OF marked] by simp
  show ?thesis
    unfolding st cl using fields same tag later by (intro conjI) simp_all
qed

theorem process_document_no_key_locks_pages_witness:
  "unconfigured \<lparr>api_key = None, client = False\<rparr>
   \<and> pages_collection two_page_db
       = Some [raw_page 1 ''Invoice 4711'', raw_page 2 ''Terms of payment'']
   \<and> \<not> read_error two_page_db
   \<and> (\<forall>n. \<not> write_error two_page_db ''doc'' n)
   \<and> distinct (map page_num (filter (\<lambda>p. doc_id p = ''doc'')
        [raw_page 1 ''Invoice 4711'', raw_page 2 ''Terms of payment'']))
   \<and> \<not> unconfigured configured_processor
   \<and> submitted (snd (process_document two_page_env configured_processor
          (store (snd (process_document two_page_env \<lparr>api_key = None, client = False\<rparr>
             two_page_db [] ''doc''))) [] ''doc'')) = []
   \<and> filter is_structure_request (calls (snd (process_document two_page_env configured_processor
          (store (snd (process_document two_page_env \<lparr>api_key = None, client = False\<rparr>
             two_page_db [] ''doc''))) [] ''doc''))) = []"
proof -
  have h1: "unconfigured \<lparr>api_key = None, client = False\<rparr>"
    by (simp add: unconfigured_def)
  have h2: "pages_collection two_page_db
       = Some [raw_page 1 ''Invoice 4711'', raw_page 2 ''Terms of payment'']"
    by (simp add: two_page_db_def)
  have h3: "\<not> read_error two_page_db"
    by (simp add: two_page_db_def)
  have h4: "\<forall>n. \<not> write_error two_page_db ''doc'' n"
    by (simp add: two_page_db_def)
  have h5: "distinct (map page_num (filter (\<lambda>p. doc_id p = ''doc'')
        [raw_page 1 ''Invoice 4711'', raw_page 2 ''Terms of payment'']))"
    by (simp add: raw_page_def)
  let ?after = "store (snd (process_document two_page_env \<lparr>api_key = None, client = False\<rparr>
             two_page_db [] ''doc''))"
  let ?second = "process_document two_page_env configured_processor ?after [] ''doc''"
  from process_document_no_key_locks_pages [OF h1 h2 h3 h4 h5, of two_page_env "[]"]
  have later: "\<forall>runs hist' r.
           r \<in> set (repeat_document runs ?after hist' ''doc'')
           \<longrightarrow> fst r = None \<and> submitted (snd r) = []
               \<and> filter is_structure_request (calls (snd r)) = filter is_structure_request hist'"
    by (elim conjE)
  have "?second \<in> set (repeat_document [(two_page_env, configured_processor)] ?after [] ''doc'')"
    by (simp add: Let_def)
  with later [rule_format, of ?second "[(two_page_env, configured_processor)]" "[]"]
  have "submitted (snd ?second) = [] \<and> filter is_structure_request (calls (snd ?second)) = []"
    by simp
  with h1 h2 h3 h4 h5 configured show ?thesis
    by (intro conjI) simp_all
qed

end
